theory Spec2Isabelle
  imports Main "HOL-Library.Char_ord" "HOL-Library.List_Lexorder" "HOL-Library.AList"
begin

section \<open>Caltech 101 / Caltech 256 dataset adapters (torchvision/datasets/caltech.py)\<close>

text \<open>
  The two classes \<^verbatim>\<open>Caltech101\<close> and \<^verbatim>\<open>Caltech256\<close> are embedded as functions over an
  explicit world (a directory tree and the list of URLs fetched so far). Every exception
  of the source is a value of \<open>error\<close>; a path is the list of its components, so that
  \<^verbatim>\<open>os.path.join(p, "a", "b")\<close> is \<open>p @ [''a'', ''b'']\<close>. File names are byte strings
  in UTF-8, whose bytewise lexicographic order is the code point order that Python's
  \<^verbatim>\<open>sorted\<close> uses on \<^verbatim>\<open>str\<close>.
\<close>

subsection \<open>Errors, paths and the directory tree\<close>

datatype error =
    IndexError
  | ListRemoveValueError
  | InvalidStrArg string string "string list"
  | DatasetNotFound
  | FileNotFoundError
  | NotADirectoryError
  | IsADirectoryError
  | FileExistsError
  | ImportError
  | KeyError string
  | OtherError string

type_synonym path = "string list"

datatype node = File string | Dir "(string \<times> node) list"

record world =
  files :: node
  fetched :: "string list"

definition err_bind :: "error + 'a \<Rightarrow> ('a \<Rightarrow> error + 'b) \<Rightarrow> error + 'b" where
  "err_bind m f = (case m of Inl e \<Rightarrow> Inl e | Inr a \<Rightarrow> f a)"

type_synonym 'a io = "world \<Rightarrow> (error + 'a) \<times> world"

definition io_bind :: "'a io \<Rightarrow> ('a \<Rightarrow> 'b io) \<Rightarrow> 'b io" where
  "io_bind m f w = (case m w of (Inl e, w') \<Rightarrow> (Inl e, w') | (Inr a, w') \<Rightarrow> f a w')"

text \<open>Following a path from a node: a missing entry and a file in the middle of the
  path are the two ways the operating system refuses it.\<close>

fun resolve :: "node \<Rightarrow> path \<Rightarrow> error + node" where
  "resolve n [] = Inr n"
| "resolve (File b) (c # cs) = Inl NotADirectoryError"
| "resolve (Dir es) (c # cs) =
     (case map_of es c of None \<Rightarrow> Inl FileNotFoundError | Some m \<Rightarrow> resolve m cs)"

definition path_exists :: "node \<Rightarrow> path \<Rightarrow> bool" where
  "path_exists t p = (case resolve t p of Inl e \<Rightarrow> False | Inr n \<Rightarrow> True)"

definition isdir :: "node \<Rightarrow> path \<Rightarrow> bool" where
  "isdir t p = (case resolve t p of Inr (Dir es) \<Rightarrow> True | _ \<Rightarrow> False)"

definition isfile :: "node \<Rightarrow> path \<Rightarrow> bool" where
  "isfile t p = (case resolve t p of Inr (File b) \<Rightarrow> True | _ \<Rightarrow> False)"

definition listdir :: "node \<Rightarrow> path \<Rightarrow> error + string list" where
  "listdir t p =
     (case resolve t p of
        Inl e \<Rightarrow> Inl e
      | Inr (File b) \<Rightarrow> Inl NotADirectoryError
      | Inr (Dir es) \<Rightarrow> Inr (map fst es))"

definition read_file :: "node \<Rightarrow> path \<Rightarrow> error + string" where
  "read_file t p =
     (case resolve t p of
        Inl e \<Rightarrow> Inl e
      | Inr (Dir es) \<Rightarrow> Inl IsADirectoryError
      | Inr (File b) \<Rightarrow> Inr b)"

text \<open>\<^verbatim>\<open>os.makedirs(p, exist_ok=True)\<close>: creates the missing directories along \<open>p\<close>.\<close>

fun makedirs :: "node \<Rightarrow> path \<Rightarrow> error + node" where
  "makedirs (Dir es) [] = Inr (Dir es)"
| "makedirs (File b) [] = Inl FileExistsError"
| "makedirs (File b) (c # cs) = Inl NotADirectoryError"
| "makedirs (Dir es) (c # cs) =
     (case map_of es c of
        None \<Rightarrow> err_bind (makedirs (Dir []) cs) (\<lambda>m. Inr (Dir (es @ [(c, m)])))
      | Some m \<Rightarrow> err_bind (makedirs m cs) (\<lambda>m'. Inr (Dir (AList.update c m' es))))"

text \<open>Removing the entry at a path (\<^verbatim>\<open>shutil.rmtree\<close> of a directory, \<^verbatim>\<open>os.remove\<close> of a
  file); the source guards both calls by \<^verbatim>\<open>isdir\<close> and \<^verbatim>\<open>isfile\<close>.\<close>

fun unlink :: "node \<Rightarrow> path \<Rightarrow> node" where
  "unlink n [] = n"
| "unlink (File b) (c # cs) = File b"
| "unlink (Dir es) [c] = Dir (AList.delete c es)"
| "unlink (Dir es) (c # d # cs) =
     (case map_of es c of
        None \<Rightarrow> Dir es
      | Some m \<Rightarrow> Dir (AList.update c (unlink m (d # cs)) es))"

definition os_makedirs :: "path \<Rightarrow> unit io" where
  "os_makedirs p w =
     (case makedirs (files w) p of
        Inl e \<Rightarrow> (Inl e, w)
      | Inr t \<Rightarrow> (Inr (), w\<lparr>files := t\<rparr>))"

definition rmtree_if_isdir :: "path \<Rightarrow> unit io" where
  "rmtree_if_isdir p w =
     (if isdir (files w) p then (Inr (), w\<lparr>files := unlink (files w) p\<rparr>) else (Inr (), w))"

definition remove_if_isfile :: "path \<Rightarrow> unit io" where
  "remove_if_isfile p w =
     (if isfile (files w) p then (Inr (), w\<lparr>files := unlink (files w) p\<rparr>) else (Inr (), w))"

subsection \<open>Python lists, strings and number formatting\<close>

text \<open>\<^verbatim>\<open>xs[i]\<close> on a Python list: a negative index counts from the end.\<close>

definition py_getitem :: "'a list \<Rightarrow> int \<Rightarrow> error + 'a" where
  "py_getitem xs i =
     (if 0 \<le> i \<and> i < int (length xs) then Inr (xs ! nat i)
      else if i < 0 \<and> - int (length xs) \<le> i then Inr (xs ! nat (int (length xs) + i))
      else Inl IndexError)"

text \<open>\<^verbatim>\<open>xs.remove(x)\<close>: removes the first occurrence, raises when there is none.\<close>

definition py_remove :: "'a \<Rightarrow> 'a list \<Rightarrow> error + 'a list" where
  "py_remove x xs = (if x \<in> set xs then Inr (remove1 x xs) else Inl ListRemoveValueError)"

definition endswith :: "string \<Rightarrow> string \<Rightarrow> bool" where
  "endswith s suf = (length suf \<le> length s \<and> drop (length s - length suf) s = suf)"

definition digit_char :: "nat \<Rightarrow> char" where
  "digit_char d = ''0123456789'' ! d"

fun digits :: "nat \<Rightarrow> string" where
  "digits n = (if n < 10 then [digit_char n] else digits (n div 10) @ [digit_char (n mod 10)])"

declare digits.simps [simp del]

definition zfill :: "nat \<Rightarrow> string \<Rightarrow> string" where
  "zfill w s = replicate (w - length s) (CHR ''0'') @ s"

text \<open>The format specification \<^verbatim>\<open>0wd\<close> of an f-string on an integer: the sign first,
  then zeros up to the width \<open>w\<close>, then the decimal digits.\<close>

definition format_0d :: "nat \<Rightarrow> int \<Rightarrow> string" where
  "format_0d w k =
     (if k < 0 then CHR ''-'' # zfill (w - 1) (digits (nat (- k))) else zfill w (digits (nat k)))"

text \<open>Reading a decimal numeral back, to state what the formatted string denotes.\<close>

definition is_digit :: "char \<Rightarrow> bool" where
  "is_digit c = (c \<in> set ''0123456789'')"

definition digit_value :: "char \<Rightarrow> nat" where
  "digit_value c = of_char c - 48"

definition decimal_value :: "string \<Rightarrow> nat" where
  "decimal_value s = foldl (\<lambda>a c. 10 * a + digit_value c) 0 s"

subsection \<open>Collaborators that are not part of this module\<close>

text \<open>
  The image decoder (PIL), the annotation reader (scipy) and the archive utilities of
  \<^verbatim>\<open>.utils\<close> are parameters of the model: \<open>scipy_importable\<close> says whether
  \<^verbatim>\<open>import scipy.io\<close> succeeds, \<open>image_decode\<close> and \<open>loadmat_parse\<close> turn the bytes of a
  file into an image and into the dictionary of a \<^verbatim>\<open>.mat\<close> file, and the two archive
  functions are arbitrary transformers of the world, taking the arguments of the call.
\<close>

record ('img, 'arr) env =
  scipy_importable :: bool
  image_decode :: "string \<Rightarrow> error + 'img"
  loadmat_parse :: "string \<Rightarrow> error + (string \<times> 'arr) list"
  download_and_extract_archive :: "string \<Rightarrow> path \<Rightarrow> string \<Rightarrow> string \<Rightarrow> unit io"
  extract_archive :: "path \<Rightarrow> path \<Rightarrow> bool \<Rightarrow> unit io"

definition Image_open :: "('img, 'arr) env \<Rightarrow> node \<Rightarrow> path \<Rightarrow> error + 'img" where
  "Image_open E t p = err_bind (read_file t p) (image_decode E)"

definition loadmat :: "('img, 'arr) env \<Rightarrow> node \<Rightarrow> path \<Rightarrow> error + (string \<times> 'arr) list" where
  "loadmat E t p = err_bind (read_file t p) (loadmat_parse E)"

definition dict_getitem :: "(string \<times> 'v) list \<Rightarrow> string \<Rightarrow> error + 'v" where
  "dict_getitem d k = (case map_of d k of None \<Rightarrow> Inl (KeyError k) | Some v \<Rightarrow> Inr v)"

text \<open>
  Modelled from the spec: \<^verbatim>\<open>verify_str_arg\<close> of \<^verbatim>\<open>.utils\<close> is not among the sources. The
  spec describes it as a string-enum validator (value, allowed set) that raises on an
  invalid value, the error naming the invalid value and the allowed set; a valid value
  is handed back.
\<close>

definition verify_str_arg :: "string \<Rightarrow> string \<Rightarrow> string list \<Rightarrow> error + string" where
  "verify_str_arg v arg valid_values =
     (if v \<in> set valid_values then Inr v else Inl (InvalidStrArg v arg valid_values))"

text \<open>
  Modelled from the spec: the base class \<^verbatim>\<open>VisionDataset\<close> of \<^verbatim>\<open>.vision\<close> is not among
  the sources; the spec calls it shared transform and target-transform plumbing. Its
  constructor keeps the root and the two optional transforms. A transform is a function of
  the caller, which may raise: it returns an error or a value of the type it was given.
\<close>

record ('img, 'tgt) vision_dataset =
  root :: path
  transform :: "('img \<Rightarrow> error + 'img) option"
  target_transform :: "('tgt \<Rightarrow> error + 'tgt) option"

definition apply_optional :: "('a \<Rightarrow> error + 'a) option \<Rightarrow> 'a \<Rightarrow> error + 'a" where
  "apply_optional f x = (case f of None \<Rightarrow> Inr x | Some g \<Rightarrow> g x)"

subsection \<open>Index construction shared by the two constructors\<close>

text \<open>
  Both constructors run the same loop over \<^verbatim>\<open>enumerate(self.categories)\<close>: with \<open>n\<close>
  the count of the category's files, \<^verbatim>\<open>self.index.extend(range(1, n + 1))\<close> and
  \<^verbatim>\<open>self.y.extend(n * [i])\<close>. They differ in how \<open>n\<close> is counted, which is the
  parameter \<open>cnt\<close>; a failing directory listing ends the loop with its error.
\<close>

fun extend_index ::
  "(string \<Rightarrow> error + nat) \<Rightarrow> (nat \<times> string) list \<Rightarrow> int list \<times> int list
     \<Rightarrow> error + (int list \<times> int list)" where
  "extend_index cnt [] (idx, ys) = Inr (idx, ys)"
| "extend_index cnt ((i, c) # ics) (idx, ys) =
     (case cnt c of
        Inl e \<Rightarrow> Inl e
      | Inr n \<Rightarrow> extend_index cnt ics (idx @ map int [1 ..< n + 1], ys @ replicate n (int i)))"

definition io_return :: "'a \<Rightarrow> 'a io" where
  "io_return a w = (Inr a, w)"

definition io_lift :: "error + 'a \<Rightarrow> 'a io" where
  "io_lift m w = (m, w)"

subsection \<open>Caltech101\<close>

datatype 'arr target_value = ClassId int | ObjContour 'arr

datatype 'arr target = Single "'arr target_value" | Tuple "'arr target_value list"

datatype str_or_list = Str string | StrList "string list"

record ('img, 'arr) caltech101 = "('img, 'arr target) vision_dataset" +
  target_type :: "string list"
  categories101 :: "string list"
  annotation_categories :: "string list"
  index101 :: "int list"
  y101 :: "int list"

definition name_map :: "(string \<times> string) list" where
  "name_map =
     [(''Faces'', ''Faces_2''),
      (''Faces_easy'', ''Faces_3''),
      (''Motorbikes'', ''Motorbikes_16''),
      (''airplanes'', ''Airplanes_Side_2'')]"

definition annotation_category :: "string \<Rightarrow> string" where
  "annotation_category x = (case map_of name_map x of Some v \<Rightarrow> v | None \<Rightarrow> x)"

text \<open>The list comprehension over \<^verbatim>\<open>target_type\<close>: the first invalid entry raises.\<close>

fun verify_target_types :: "string list \<Rightarrow> error + string list" where
  "verify_target_types [] = Inr []"
| "verify_target_types (t # ts) =
     err_bind (verify_str_arg t ''target_type'' [''category'', ''annotation''])
       (\<lambda>v. err_bind (verify_target_types ts) (\<lambda>vs. Inr (v # vs)))"

definition check_integrity101 :: "path \<Rightarrow> node \<Rightarrow> bool" where
  "check_integrity101 r t = path_exists t (r @ [''101_ObjectCategories''])"

text \<open>\<^verbatim>\<open>Caltech101.download\<close>; \<open>r\<close> is \<^verbatim>\<open>self.root\<close>, the only field it reads.\<close>

definition download101 :: "('img, 'arr) env \<Rightarrow> path \<Rightarrow> unit io" where
  "download101 E r w =
     (if check_integrity101 r (files w) then (Inr (), w)
      else
        io_bind (download_and_extract_archive E
                   ''https://data.caltech.edu/records/mzrjq-6wc02/files/caltech-101.zip?download=1''
                   r ''caltech-101.zip'' ''3138e1922a9193bfa496528edbbc45d0'') (\<lambda>_.
        io_bind (rmtree_if_isdir (r @ [''caltech-101'', ''__MACOSX''])) (\<lambda>_.
        io_bind (extract_archive E (r @ [''caltech-101'', ''101_ObjectCategories.tar.gz'']) r True) (\<lambda>_.
        io_bind (extract_archive E (r @ [''caltech-101'', ''Annotations.tar'']) r True) (\<lambda>_.
        io_bind (rmtree_if_isdir (r @ [''caltech-101''])) (\<lambda>_.
        remove_if_isfile (r @ [''caltech-101.zip''])))))) w)"

definition count101 :: "node \<Rightarrow> path \<Rightarrow> string \<Rightarrow> error + nat" where
  "count101 t r c =
     err_bind (listdir t (r @ [''101_ObjectCategories'', c])) (\<lambda>names. Inr (length names))"

text \<open>The part of \<^verbatim>\<open>Caltech101.__init__\<close> after the integrity check, which only reads
  the directory tree: the category list, the annotation names and the index.\<close>

definition scan101 ::
  "path \<Rightarrow> string list \<Rightarrow> ('img \<Rightarrow> error + 'img) option
     \<Rightarrow> ('arr target \<Rightarrow> error + 'arr target) option \<Rightarrow> node
     \<Rightarrow> error + ('img, 'arr) caltech101" where
  "scan101 r tts tr ttr t =
     err_bind (listdir t (r @ [''101_ObjectCategories''])) (\<lambda>names.
     err_bind (py_remove ''BACKGROUND_Google'' (sort names)) (\<lambda>cats.
     err_bind (extend_index (count101 t r) (enumerate 0 cats) ([], [])) (\<lambda>(idx, ys).
     Inr \<lparr>root = r, transform = tr, target_transform = ttr,
          target_type = tts, categories101 = cats,
          annotation_categories = map annotation_category cats,
          index101 = idx, y101 = ys\<rparr>)))"

definition init101 ::
  "('img, 'arr) env \<Rightarrow> path \<Rightarrow> str_or_list \<Rightarrow> ('img \<Rightarrow> error + 'img) option
     \<Rightarrow> ('arr target \<Rightarrow> error + 'arr target) option \<Rightarrow> bool
     \<Rightarrow> ('img, 'arr) caltech101 io" where
  "init101 E rt tt tr ttr dl =
     io_bind (os_makedirs (rt @ [''caltech101''])) (\<lambda>_.
     io_bind (io_lift (verify_target_types (case tt of Str s \<Rightarrow> [s] | StrList l \<Rightarrow> l))) (\<lambda>tts.
     io_bind (if dl then download101 E (rt @ [''caltech101'']) else io_return ()) (\<lambda>_.
     io_bind (\<lambda>w. io_lift (if check_integrity101 (rt @ [''caltech101'']) (files w)
                           then Inr () else Inl DatasetNotFound) w) (\<lambda>_.
     (\<lambda>w. io_lift (scan101 (rt @ [''caltech101'']) tts tr ttr (files w)) w)))))"

definition image_path101 :: "('img, 'arr) caltech101 \<Rightarrow> int \<Rightarrow> error + path" where
  "image_path101 ds i =
     err_bind (py_getitem (y101 ds) i) (\<lambda>yi.
     err_bind (py_getitem (categories101 ds) yi) (\<lambda>c.
     err_bind (py_getitem (index101 ds) i) (\<lambda>k.
     Inr (root ds @ [''101_ObjectCategories'', c, ''image_'' @ format_0d 4 k @ ''.jpg'']))))"

definition annotation_path101 :: "('img, 'arr) caltech101 \<Rightarrow> int \<Rightarrow> error + path" where
  "annotation_path101 ds i =
     err_bind (py_getitem (y101 ds) i) (\<lambda>yi.
     err_bind (py_getitem (annotation_categories ds) yi) (\<lambda>c.
     err_bind (py_getitem (index101 ds) i) (\<lambda>k.
     Inr (root ds @ [''Annotations'', c, ''annotation_'' @ format_0d 4 k @ ''.mat'']))))"

text \<open>The loop \<^verbatim>\<open>for t in self.target_type\<close>, appending to \<^verbatim>\<open>target\<close>.\<close>

fun collect_targets ::
  "('img, 'arr) env \<Rightarrow> node \<Rightarrow> ('img, 'arr) caltech101 \<Rightarrow> int \<Rightarrow> string list
     \<Rightarrow> 'arr target_value list \<Rightarrow> error + 'arr target_value list" where
  "collect_targets E t ds i [] target = Inr target"
| "collect_targets E t ds i (k # ks) target =
     (if k = ''category'' then
        err_bind (py_getitem (y101 ds) i) (\<lambda>yi.
        collect_targets E t ds i ks (target @ [ClassId yi]))
      else if k = ''annotation'' then
        err_bind (annotation_path101 ds i) (\<lambda>p.
        err_bind (loadmat E t p) (\<lambda>data.
        err_bind (dict_getitem data ''obj_contour'') (\<lambda>a.
        collect_targets E t ds i ks (target @ [ObjContour a]))))
      else collect_targets E t ds i ks target)"

text \<open>\<^verbatim>\<open>tuple(target) if len(target) > 1 else target[0]\<close>\<close>

definition pack_target :: "'arr target_value list \<Rightarrow> error + 'arr target" where
  "pack_target target =
     (if length target > 1 then Inr (Tuple target)
      else err_bind (py_getitem target 0) (\<lambda>v. Inr (Single v)))"

text \<open>\<^verbatim>\<open>Caltech101.__getitem__\<close>, reading the directory tree \<open>t\<close>.\<close>

definition get101 ::
  "('img, 'arr) env \<Rightarrow> node \<Rightarrow> ('img, 'arr) caltech101 \<Rightarrow> int
     \<Rightarrow> error + ('img \<times> 'arr target)" where
  "get101 E t ds i =
     (if \<not> scipy_importable E then Inl ImportError
      else
        err_bind (image_path101 ds i) (\<lambda>p.
        err_bind (Image_open E t p) (\<lambda>img.
        err_bind (collect_targets E t ds i (target_type ds) []) (\<lambda>target.
        err_bind (pack_target target) (\<lambda>tgt.
        err_bind (apply_optional (transform ds) img) (\<lambda>img'.
        err_bind (apply_optional (target_transform ds) tgt) (\<lambda>tgt'.
        Inr (img', tgt'))))))))"

definition len101 :: "('img, 'arr) caltech101 \<Rightarrow> int" where
  "len101 ds = int (length (index101 ds))"

subsection \<open>Caltech256\<close>

record 'img caltech256 = "('img, int) vision_dataset" +
  categories256 :: "string list"
  index256 :: "int list"
  y256 :: "int list"

definition check_integrity256 :: "path \<Rightarrow> node \<Rightarrow> bool" where
  "check_integrity256 r t = path_exists t (r @ [''256_ObjectCategories''])"

definition download256 :: "('img, 'arr) env \<Rightarrow> path \<Rightarrow> unit io" where
  "download256 E r w =
     (if check_integrity256 r (files w) then (Inr (), w)
      else
        download_and_extract_archive E
          ''https://data.caltech.edu/records/nyy15-4j048/files/256_ObjectCategories.tar''
          r ''256_ObjectCategories.tar'' ''67b4f42ca05d46448c6bb8ecd2220f6d'' w)"

definition count256 :: "node \<Rightarrow> path \<Rightarrow> string \<Rightarrow> error + nat" where
  "count256 t r c =
     err_bind (listdir t (r @ [''256_ObjectCategories'', c]))
       (\<lambda>names. Inr (length (filter (\<lambda>item. endswith item ''.jpg'') names)))"

definition scan256 ::
  "path \<Rightarrow> ('img \<Rightarrow> error + 'img) option \<Rightarrow> (int \<Rightarrow> error + int) option \<Rightarrow> node
     \<Rightarrow> error + 'img caltech256" where
  "scan256 r tr ttr t =
     err_bind (listdir t (r @ [''256_ObjectCategories''])) (\<lambda>names.
     err_bind (extend_index (count256 t r) (enumerate 0 (sort names)) ([], [])) (\<lambda>(idx, ys).
     Inr \<lparr>root = r, transform = tr, target_transform = ttr,
          categories256 = sort names, index256 = idx, y256 = ys\<rparr>))"

definition init256 ::
  "('img, 'arr) env \<Rightarrow> path \<Rightarrow> ('img \<Rightarrow> error + 'img) option
     \<Rightarrow> (int \<Rightarrow> error + int) option \<Rightarrow> bool \<Rightarrow> 'img caltech256 io" where
  "init256 E rt tr ttr dl =
     io_bind (os_makedirs (rt @ [''caltech256''])) (\<lambda>_.
     io_bind (if dl then download256 E (rt @ [''caltech256'']) else io_return ()) (\<lambda>_.
     io_bind (\<lambda>w. io_lift (if check_integrity256 (rt @ [''caltech256'']) (files w)
                           then Inr () else Inl DatasetNotFound) w) (\<lambda>_.
     (\<lambda>w. io_lift (scan256 (rt @ [''caltech256'']) tr ttr (files w)) w))))"

definition image_path256 :: "'img caltech256 \<Rightarrow> int \<Rightarrow> error + path" where
  "image_path256 ds i =
     err_bind (py_getitem (y256 ds) i) (\<lambda>yi.
     err_bind (py_getitem (categories256 ds) yi) (\<lambda>c.
     err_bind (py_getitem (index256 ds) i) (\<lambda>k.
     Inr (root ds @ [''256_ObjectCategories'', c,
                     format_0d 3 (yi + 1) @ ''_'' @ format_0d 4 k @ ''.jpg'']))))"

text \<open>\<^verbatim>\<open>Caltech256.__getitem__\<close>\<close>

definition get256 ::
  "('img, 'arr) env \<Rightarrow> node \<Rightarrow> 'img caltech256 \<Rightarrow> int \<Rightarrow> error + ('img \<times> int)" where
  "get256 E t ds i =
     err_bind (image_path256 ds i) (\<lambda>p.
     err_bind (Image_open E t p) (\<lambda>img.
     err_bind (py_getitem (y256 ds) i) (\<lambda>target.
     err_bind (apply_optional (transform ds) img) (\<lambda>img'.
     err_bind (apply_optional (target_transform ds) target) (\<lambda>target'.
     Inr (img', target'))))))"

definition len256 :: "'img caltech256 \<Rightarrow> int" where
  "len256 ds = int (length (index256 ds))"

subsection \<open>What the index is meant to be\<close>

text \<open>The count of a category's files, where the directory listing succeeds.\<close>

definition the_count :: "(string \<Rightarrow> error + nat) \<Rightarrow> string \<Rightarrow> nat" where
  "the_count cnt c = (case cnt c of Inl e \<Rightarrow> 0 | Inr n \<Rightarrow> n)"

definition block_offset :: "(string \<Rightarrow> nat) \<Rightarrow> string list \<Rightarrow> nat \<Rightarrow> nat" where
  "block_offset n cats k = sum_list (map n (take k cats))"

text \<open>
  The invariant of the sample index in the words of the specification: the two sequences
  have one length; the category at position \<open>k\<close> of the category list, with \<open>n\<close> files,
  owns \<open>n\<close> consecutive entries (after the entries of the categories before it) whose
  category id is \<open>k\<close> and whose ordinals are 1 to \<open>n\<close>, and no other entry has the id
  \<open>k\<close>; every id is a position of the category list; the ids never decrease.
\<close>

definition index_invariant :: "(string \<Rightarrow> nat) \<Rightarrow> string list \<Rightarrow> int list \<Rightarrow> int list \<Rightarrow> bool" where
  "index_invariant n cats idx ys \<longleftrightarrow>
     length idx = length ys \<and>
     list_all (\<lambda>k.
         take (n (cats ! k)) (drop (block_offset n cats k) ys) = replicate (n (cats ! k)) (int k) \<and>
         take (n (cats ! k)) (drop (block_offset n cats k) idx) = map int [1 ..< n (cats ! k) + 1] \<and>
         length (filter (\<lambda>v. v = int k) ys) = n (cats ! k))
       [0 ..< length cats] \<and>
     list_all (\<lambda>v. 0 \<le> v \<and> v < int (length cats)) ys \<and>
     sorted ys"

subsection \<open>A small dataset on which the model is run\<close>

text \<open>
  A directory tree with a Caltech 101 layout of two categories (\<open>Faces\<close> with two
  images, \<open>b\<close> with three) beside the background folder, and a Caltech 256 layout of two
  categories, one of which holds a file that is not an image. The collaborators decode a
  file to its bytes, and the archive utility records the URL it is asked for.
\<close>

definition demo_env :: "(string, string) env" where
  "demo_env = \<lparr>scipy_importable = True, image_decode = (\<lambda>b. Inr b),
     loadmat_parse = (\<lambda>b. Inr [(''obj_contour'', b)]),
     download_and_extract_archive = (\<lambda>url r f m w. (Inr (), w\<lparr>fetched := fetched w @ [url]\<rparr>)),
     extract_archive = (\<lambda>a b c w. (Inr (), w))\<rparr>"

definition demo_tree :: node where
  "demo_tree = Dir [(''data'', Dir
     [(''caltech101'', Dir
        [(''101_ObjectCategories'', Dir
           [(''b'', Dir [(''image_0001.jpg'', File ''b1''), (''image_0002.jpg'', File ''b2''),
                        (''image_0003.jpg'', File ''b3'')]),
            (''BACKGROUND_Google'', Dir [(''image_0001.jpg'', File ''g1'')]),
            (''Faces'', Dir [(''image_0001.jpg'', File ''f1''), (''image_0002.jpg'', File ''f2'')])]),
         (''Annotations'', Dir
           [(''Faces_2'', Dir [(''annotation_0001.mat'', File ''cf1''),
                              (''annotation_0002.mat'', File ''cf2'')]),
            (''b'', Dir [(''annotation_0001.mat'', File ''cb1''), (''annotation_0002.mat'', File ''cb2''),
                        (''annotation_0003.mat'', File ''cb3'')])])]),
      (''caltech256'', Dir
        [(''256_ObjectCategories'', Dir
           [(''002.flag'', Dir [(''002_0001.jpg'', File ''q1''), (''002_0002.jpg'', File ''q2''),
                               (''002_0003.jpg'', File ''q3'')]),
            (''001.ak47'', Dir [(''001_0001.jpg'', File ''p1''), (''notes.txt'', File ''n''),
                               (''001_0002.jpg'', File ''p2'')])])])])]"

definition demo_world :: world where
  "demo_world = \<lparr>files = demo_tree, fetched = []\<rparr>"

definition demo101 :: "string list \<Rightarrow> (string, string) caltech101" where
  "demo101 tts = \<lparr>root = [''data'', ''caltech101''], transform = None, target_transform = None,
     target_type = tts, categories101 = [''Faces'', ''b''],
     annotation_categories = [''Faces_2'', ''b''],
     index101 = [1, 2, 1, 2, 3], y101 = [0, 0, 1, 1, 1]\<rparr>"

definition demo256 :: "string caltech256" where
  "demo256 = \<lparr>root = [''data'', ''caltech256''], transform = None, target_transform = None,
     categories256 = [''001.ak47'', ''002.flag''],
     index256 = [1, 2, 1, 2, 3], y256 = [0, 0, 1, 1, 1]\<rparr>"

subsection \<open>Consistency of the index\<close>

text \<open>What a constructed dataset guarantees to the lookup.\<close>

definition consistent_index :: "string list \<Rightarrow> int list \<Rightarrow> int list \<Rightarrow> bool" where
  "consistent_index cats idx ys \<longleftrightarrow>
     length ys = length idx \<and>
     (\<forall>i < length ys. 0 \<le> ys ! i \<and> ys ! i < int (length cats)) \<and>
     (\<forall>i < length idx. 1 \<le> idx ! i)"

text \<open>An empty disk, and a Caltech 101 layout that lacks the background folder.\<close>

definition empty_world :: world where
  "empty_world = \<lparr>files = Dir [], fetched = []\<rparr>"

definition no_background_tree :: node where
  "no_background_tree = Dir [(''data'', Dir
     [(''caltech101'', Dir
        [(''101_ObjectCategories'', Dir
           [(''a'', Dir [(''image_0001.jpg'', File ''a1'')])])])])]"

definition no_background_world :: world where
  "no_background_world = \<lparr>files = no_background_tree, fetched = []\<rparr>"

subsection \<open>The target of one requested kind\<close>

text \<open>
  The value the specification gives to one requested target kind of sample \<open>i\<close>: the class
  id for \<open>category\<close>, and for \<open>annotation\<close> the contour \<open>obj_contour\<close> loaded from the file
  \<open>annotation_%04d.mat\<close> of the sample's ordinal, in the annotation folder that the
  name-remap table gives the sample's category.
\<close>

definition requested_value ::
  "('img, 'arr) env \<Rightarrow> node \<Rightarrow> ('img, 'arr) caltech101 \<Rightarrow> int \<Rightarrow> string
     \<Rightarrow> error + 'arr target_value" where
  "requested_value E t ds i k =
     (if k = ''category'' then Inr (ClassId (y101 ds ! nat i))
      else
        err_bind (loadmat E t (root ds @ [''Annotations'',
                    annotation_category (categories101 ds ! nat (y101 ds ! nat i)),
                    ''annotation_'' @ format_0d 4 (index101 ds ! nat i) @ ''.mat'']))
          (\<lambda>data. err_bind (dict_getitem data ''obj_contour'') (\<lambda>a. Inr (ObjContour a))))"

subsection \<open>The files of a category\<close>

text \<open>
  The specification speaks of the files, and of the image files, of a category. Read off
  the directory tree, the directory of a category has three counts: all of its entries,
  the entries whose name ends in \<open>.jpg\<close>, and its image files, the regular files whose
  name ends in \<open>.jpg\<close>. A directory that cannot be listed counts as empty.
\<close>

definition entry_count :: "node \<Rightarrow> path \<Rightarrow> nat" where
  "entry_count t p = (case listdir t p of Inl e \<Rightarrow> 0 | Inr names \<Rightarrow> length names)"

definition jpg_name_count :: "node \<Rightarrow> path \<Rightarrow> nat" where
  "jpg_name_count t p =
     (case listdir t p of
        Inl e \<Rightarrow> 0
      | Inr names \<Rightarrow> length (filter (\<lambda>item. endswith item ''.jpg'') names))"

definition is_image_file :: "string \<times> node \<Rightarrow> bool" where
  "is_image_file e = (case snd e of File b \<Rightarrow> endswith (fst e) ''.jpg'' | Dir es \<Rightarrow> False)"

definition image_file_count :: "node \<Rightarrow> path \<Rightarrow> nat" where
  "image_file_count t p =
     (case resolve t p of
        Inl e \<Rightarrow> 0
      | Inr (File b) \<Rightarrow> 0
      | Inr (Dir es) \<Rightarrow> length (filter is_image_file es))"

text \<open>
  A directory tree whose categories hold more than images. In the Caltech 101 layout the
  category \<open>a\<close> holds one image, a text file and a sub-directory; in the Caltech 256
  layout the category \<open>001.a\<close> holds one image and a directory whose name ends in
  \<open>.jpg\<close>.
\<close>

definition stray_tree :: node where
  "stray_tree = Dir [(''data'', Dir
     [(''caltech101'', Dir
        [(''101_ObjectCategories'', Dir
           [(''BACKGROUND_Google'', Dir []),
            (''a'', Dir [(''image_0001.jpg'', File ''a1''), (''notes.txt'', File ''n''),
                        (''sub'', Dir [])])])]),
      (''caltech256'', Dir
        [(''256_ObjectCategories'', Dir
           [(''001.a'', Dir [(''001_0001.jpg'', File ''p1''), (''old.jpg'', Dir [])])])])])]"

definition stray_world :: world where
  "stray_world = \<lparr>files = stray_tree, fetched = []\<rparr>"

definition stray101 :: "string list \<Rightarrow> (string, string) caltech101" where
  "stray101 tts = \<lparr>root = [''data'', ''caltech101''], transform = None, target_transform = None,
     target_type = tts, categories101 = [''a''], annotation_categories = [''a''],
     index101 = [1, 2, 3], y101 = [0, 0, 0]\<rparr>"

definition stray256 :: "string caltech256" where
  "stray256 = \<lparr>root = [''data'', ''caltech256''], transform = None, target_transform = None,
     categories256 = [''001.a''], index256 = [1, 2], y256 = [0, 0]\<rparr>"

text \<open>
  A Caltech 101 layout whose annotations of the category \<open>Faces\<close> are kept in a folder
  of the category's own name, not in the folder \<open>Faces_2\<close> of the name-remap table.
\<close>

definition faces_tree :: node where
  "faces_tree = Dir [(''data'', Dir
     [(''caltech101'', Dir
        [(''101_ObjectCategories'', Dir
           [(''BACKGROUND_Google'', Dir []),
            (''Faces'', Dir [(''image_0001.jpg'', File ''f1'')])]),
         (''Annotations'', Dir
           [(''Faces'', Dir [(''annotation_0001.mat'', File ''cf1'')])])])])]"

definition faces_world :: world where
  "faces_world = \<lparr>files = faces_tree, fetched = []\<rparr>"

definition faces101 :: "string list \<Rightarrow> (string, string) caltech101" where
  "faces101 tts = \<lparr>root = [''data'', ''caltech101''], transform = None, target_transform = None,
     target_type = tts, categories101 = [''Faces''], annotation_categories = [''Faces_2''],
     index101 = [1], y101 = [0]\<rparr>"

section \<open>Properties\<close>

subsection \<open>Auxiliary facts\<close>

lemma err_bind_Inr_iff:
  "err_bind m f = Inr b \<longleftrightarrow> (\<exists>a. m = Inr a \<and> f a = Inr b)"
  by (cases m) (simp_all add: err_bind_def)

lemma io_bind_Inr_iff:
  "io_bind m f w = (Inr b, w') \<longleftrightarrow> (\<exists>a w1. m w = (Inr a, w1) \<and> f a w1 = (Inr b, w'))"
  by (auto simp: io_bind_def split: prod.splits sum.splits)

lemma extend_index_closed:
  "extend_index cnt (enumerate k cs) (idx, ys) = Inr (idx', ys') \<Longrightarrow>
     (\<forall>c \<in> set cs. \<exists>n. cnt c = Inr n) \<and>
     idx' = idx @ concat (map (\<lambda>c. map int [1 ..< the_count cnt c + 1]) cs) \<and>
     ys' = ys @ concat (map (\<lambda>(i, c). replicate (the_count cnt c) (int i)) (enumerate k cs))"
proof (induction cs arbitrary: k idx ys)
  case Nil
  then show ?case by simp
next
  case (Cons c cs)
  from Cons.prems obtain n where n: "cnt c = Inr n"
    and rest: "extend_index cnt (enumerate (Suc k) cs)
                 (idx @ map int [1 ..< n + 1], ys @ replicate n (int k)) = Inr (idx', ys')"
    by (auto split: sum.splits)
  from Cons.IH [OF rest] n show ?case
    by (simp add: the_count_def)
qed

lemma concat_block:
  "k < length xss \<Longrightarrow>
     take (length (xss ! k)) (drop (length (concat (take k xss))) (concat xss)) = xss ! k"
proof -
  assume k: "k < length xss"
  have "xss = take k xss @ (xss ! k) # drop (Suc k) xss"
    using k by (simp add: id_take_nth_drop)
  then have "concat xss = concat (take k xss) @ (xss ! k) @ concat (drop (Suc k) xss)"
    by (metis concat.simps(2) concat_append)
  then show ?thesis by simp
qed

lemma class_blocks_sorted:
  "sorted (concat (map (\<lambda>(i, c). replicate (f c) (int i)) (enumerate k cs)))"
proof (induction cs arbitrary: k)
  case Nil
  then show ?case by simp
next
  case (Cons c cs)
  have "\<forall>v \<in> set (concat (map (\<lambda>(i, c). replicate (f c) (int i)) (enumerate (Suc k) cs))). int k \<le> v"
    by (auto simp: in_set_enumerate_eq)
  with Cons.IH [of "Suc k"] show ?case
    by (auto simp: sorted_append)
qed

lemma class_blocks_range:
  "v \<in> set (concat (map (\<lambda>(i, c). replicate (f c) (int i)) (enumerate k cs))) \<Longrightarrow>
     int k \<le> v \<and> v < int (k + length cs)"
  by (auto simp: in_set_enumerate_eq)

lemma class_blocks_count:
  "j < length cs \<Longrightarrow>
     length (filter (\<lambda>v. v = int (k + j))
       (concat (map (\<lambda>(i, c). replicate (f c) (int i)) (enumerate k cs)))) = f (cs ! j)"
proof (induction cs arbitrary: k j)
  case Nil
  then show ?case by simp
next
  case (Cons c cs)
  show ?case
  proof (cases j)
    case 0
    have "filter (\<lambda>v. v = int k)
            (concat (map (\<lambda>(i, c). replicate (f c) (int i)) (enumerate (Suc k) cs))) = []"
      by (auto simp: filter_empty_conv in_set_enumerate_eq)
    with 0 show ?thesis by simp
  next
    case (Suc j')
    with Cons.prems have "j' < length cs" by simp
    from Cons.IH [OF this, of "Suc k"] Suc show ?thesis by simp
  qed
qed

lemma digit_table:
  "\<forall>d \<in> set [0 ..< 10]. is_digit (digit_char d) \<and> digit_value (digit_char d) = d"
  by code_simp

lemma digit_char_is_digit: "d < 10 \<Longrightarrow> is_digit (digit_char d)"
  using digit_table by simp

lemma digit_value_digit_char: "d < 10 \<Longrightarrow> digit_value (digit_char d) = d"
  using digit_table by simp

lemma digits_all_digits: "list_all is_digit (digits n)"
proof (induction n rule: digits.induct)
  case (1 n)
  show ?case
  proof (cases "n < 10")
    case True
    then show ?thesis by (simp add: digits.simps [of n] digit_char_is_digit)
  next
    case False
    with 1 show ?thesis by (simp add: digits.simps [of n] digit_char_is_digit)
  qed
qed

lemma decimal_value_snoc: "decimal_value (s @ [c]) = 10 * decimal_value s + digit_value c"
  by (simp add: decimal_value_def)

lemma decimal_value_digits: "decimal_value (digits n) = n"
proof (induction n rule: digits.induct)
  case (1 n)
  show ?case
  proof (cases "n < 10")
    case True
    then show ?thesis
      by (simp add: digits.simps [of n] decimal_value_def digit_value_digit_char)
  next
    case False
    with 1 show ?thesis
      by (simp add: digits.simps [of n] decimal_value_snoc digit_value_digit_char)
  qed
qed

lemma decimal_value_zeros: "decimal_value (replicate m (CHR ''0'') @ s) = decimal_value s"
proof -
  have "foldl (\<lambda>a c. 10 * a + digit_value c) 0 (replicate m (CHR ''0'')) = 0"
    by (induction m) (simp_all add: digit_value_def)
  then show ?thesis by (simp add: decimal_value_def)
qed

lemma length_digits_pos: "0 < length (digits n)"
  by (subst digits.simps) simp

lemma length_digits_le: "0 < m \<Longrightarrow> n < 10 ^ m \<Longrightarrow> length (digits n) \<le> m"
proof (induction n arbitrary: m rule: digits.induct)
  case (1 n)
  show ?case
  proof (cases "n < 10")
    case True
    then have "length (digits n) = 1" by (simp add: digits.simps [of n])
    with "1.prems" show ?thesis by simp
  next
    case False
    from "1.prems" obtain m' where m: "m = Suc m'" by (cases m) simp_all
    have m': "0 < m'"
    proof (cases m')
      case 0
      with m "1.prems" False show ?thesis by simp
    next
      case (Suc k)
      then show ?thesis by simp
    qed
    have "n < 10 ^ m' * 10" using "1.prems" m by (simp add: mult.commute)
    then have "n div 10 < 10 ^ m'" by (rule less_mult_imp_div_less)
    from "1.IH" [OF False m' this] have "length (digits (n div 10)) \<le> m'" .
    with False m show ?thesis by (simp add: digits.simps [of n])
  qed
qed

lemma format_0d_nonneg:
  "0 \<le> k \<Longrightarrow> format_0d w k = replicate (w - length (digits (nat k))) (CHR ''0'') @ digits (nat k)"
  by (simp add: format_0d_def zfill_def)

lemma zeros_all_digits: "list_all is_digit (replicate m (CHR ''0''))"
  by (induction m) (simp_all add: is_digit_def)

lemma format_0d_digits: "0 \<le> k \<Longrightarrow> list_all is_digit (format_0d w k)"
  by (simp add: format_0d_nonneg zeros_all_digits digits_all_digits)

lemma format_0d_value: "0 \<le> k \<Longrightarrow> decimal_value (format_0d w k) = nat k"
  by (simp add: format_0d_nonneg decimal_value_zeros decimal_value_digits)

lemma format_0d_length: "0 \<le> k \<Longrightarrow> length (format_0d w k) = max w (length (digits (nat k)))"
  by (simp add: format_0d_nonneg)

lemma format_0d_width: "0 \<le> k \<Longrightarrow> k < 10 ^ w \<Longrightarrow> 0 < w \<Longrightarrow> length (format_0d w k) = w"
proof -
  assume k: "0 \<le> k" "k < 10 ^ w" and w: "0 < w"
  have "nat k < 10 ^ w" using k by (simp add: nat_less_iff)
  with w have "length (digits (nat k)) \<le> w" by (rule length_digits_le)
  with k show ?thesis by (simp add: format_0d_length)
qed

lemma demo_makedirs101: "makedirs demo_tree [''data'', ''caltech101''] = Inr demo_tree"
  by code_simp

lemma demo_scan101_parts:
  "listdir demo_tree [''data'', ''caltech101'', ''101_ObjectCategories'']
     = Inr [''b'', ''BACKGROUND_Google'', ''Faces'']"
  "py_remove ''BACKGROUND_Google'' (sort [''b'', ''BACKGROUND_Google'', ''Faces'']) = Inr [''Faces'', ''b'']"
  "extend_index (count101 demo_tree [''data'', ''caltech101'']) (enumerate 0 [''Faces'', ''b'']) ([], [])
     = Inr ([1, 2, 1, 2, 3], [0, 0, 1, 1, 1])"
  "map annotation_category [''Faces'', ''b''] = [''Faces_2'', ''b'']"
  "check_integrity101 [''data'', ''caltech101''] demo_tree"
  by code_simp+

lemma demo_scan101:
  "scan101 [''data'', ''caltech101''] tts None None demo_tree = Inr (demo101 tts)"
  unfolding scan101_def demo101_def
  by (simp only: append.simps demo_scan101_parts err_bind_def sum.case prod.case)

lemma demo_init101:
  "init101 demo_env [''data''] (StrList [''category'', ''annotation'']) None None False demo_world
     = (Inr (demo101 [''category'', ''annotation'']), demo_world)"
  by (simp add: init101_def io_bind_def os_makedirs_def demo_world_def demo_makedirs101
        io_lift_def io_return_def verify_str_arg_def err_bind_def demo_scan101_parts demo_scan101)

lemma demo_makedirs256: "makedirs demo_tree [''data'', ''caltech256''] = Inr demo_tree"
  by code_simp

lemma demo_scan256_parts:
  "listdir demo_tree [''data'', ''caltech256'', ''256_ObjectCategories'']
     = Inr [''002.flag'', ''001.ak47'']"
  "sort [''002.flag'', ''001.ak47''] = [''001.ak47'', ''002.flag'']"
  "extend_index (count256 demo_tree [''data'', ''caltech256''])
     (enumerate 0 [''001.ak47'', ''002.flag'']) ([], [])
     = Inr ([1, 2, 1, 2, 3], [0, 0, 1, 1, 1])"
  "check_integrity256 [''data'', ''caltech256''] demo_tree"
  by code_simp+

lemma demo_scan256:
  "scan256 [''data'', ''caltech256''] None None demo_tree = Inr demo256"
  unfolding scan256_def demo256_def
  by (simp only: append.simps demo_scan256_parts err_bind_def sum.case prod.case)

lemma demo_init256:
  "init256 demo_env [''data''] None None False demo_world = (Inr demo256, demo_world)"
  by (simp add: init256_def io_bind_def os_makedirs_def demo_world_def demo_makedirs256
        io_lift_def io_return_def demo_scan256_parts demo_scan256)

subsection \<open>Fetching\<close>

text \<open>
  C9. The fetch operation is a no-op whenever the expected dataset directory exists: the
  world it returns is the world it was given, so no file is written and no URL is
  fetched, and calling it twice is calling it once. Both variants.
\<close>

theorem download_existing_is_noop:
  "(check_integrity101 r (files w) \<longrightarrow>
      download101 E r w = (Inr (), w) \<and>
      io_bind (download101 E r) (\<lambda>_. download101 E r) w = download101 E r w) \<and>
   (check_integrity256 r' (files w') \<longrightarrow>
      download256 E' r' w' = (Inr (), w') \<and>
      io_bind (download256 E' r') (\<lambda>_. download256 E' r') w' = download256 E' r' w')"
  by (simp add: download101_def download256_def io_bind_def)

theorem download_existing_is_noop_witness:
  "check_integrity101 [''data'', ''caltech101''] (files demo_world) \<and>
   download101 demo_env [''data'', ''caltech101''] demo_world = (Inr (), demo_world) \<and>
   check_integrity256 [''data'', ''caltech256''] (files demo_world) \<and>
   download256 demo_env [''data'', ''caltech256''] demo_world = (Inr (), demo_world) \<and>
   fetched demo_world = []"
proof -
  have a: "check_integrity101 [''data'', ''caltech101''] (files demo_world)"
    by (simp add: demo_world_def demo_scan101_parts)
  have b: "check_integrity256 [''data'', ''caltech256''] (files demo_world)"
    by (simp add: demo_world_def demo_scan256_parts)
  from a b
    download_existing_is_noop [of "[''data'', ''caltech101'']" demo_world demo_env
      "[''data'', ''caltech256'']" demo_world demo_env]
  show ?thesis by (simp add: demo_world_def)
qed

lemma length_count_blocks:
  "length (concat (map (\<lambda>c. map int [1 ..< n c + 1]) cs)) = sum_list (map n cs)"
  by (induction cs) simp_all

lemma length_class_blocks:
  "length (concat (map (\<lambda>(i, c). replicate (n c) (int i)) (enumerate k cs))) = sum_list (map n cs)"
  by (induction cs arbitrary: k) simp_all

lemma extend_index_invariant:
  assumes "extend_index cnt (enumerate 0 cats) ([], []) = Inr (idx, ys)"
  shows "index_invariant (the_count cnt) cats idx ys"
    and "length idx = sum_list (map (the_count cnt) cats)"
    and "\<forall>c \<in> set cats. \<exists>n. cnt c = Inr n"
proof -
  define n where "n = the_count cnt"
  define xss where "xss = map (\<lambda>c. map int [1 ..< n c + 1]) cats"
  define yss where "yss = map (\<lambda>(i, c). replicate (n c) (int i)) (enumerate 0 cats)"
  from extend_index_closed [OF assms]
  have idx: "idx = concat xss" and ys: "ys = concat yss"
    and ok: "\<forall>c \<in> set cats. \<exists>n. cnt c = Inr n"
    by (simp_all add: xss_def yss_def n_def)
  show "\<forall>c \<in> set cats. \<exists>n. cnt c = Inr n" by (rule ok)
  have len_idx: "length idx = sum_list (map n cats)"
    unfolding idx xss_def by (rule length_count_blocks)
  have len_ys: "length ys = sum_list (map n cats)"
    unfolding ys yss_def by (rule length_class_blocks)
  show "length idx = sum_list (map (the_count cnt) cats)"
    using len_idx by (simp add: n_def)
  have blocks: "take (n (cats ! k)) (drop (block_offset n cats k) ys) = replicate (n (cats ! k)) (int k) \<and>
      take (n (cats ! k)) (drop (block_offset n cats k) idx) = map int [1 ..< n (cats ! k) + 1] \<and>
      length (filter (\<lambda>v. v = int k) ys) = n (cats ! k)" if k: "k < length cats" for k
  proof -
    have xk: "xss ! k = map int [1 ..< n (cats ! k) + 1]"
      using k by (simp add: xss_def)
    have yk: "yss ! k = replicate (n (cats ! k)) (int k)"
      using k by (simp add: yss_def nth_enumerate_eq)
    have "take k xss = map (\<lambda>c. map int [1 ..< n c + 1]) (take k cats)"
      by (simp add: xss_def take_map)
    then have offx: "length (concat (take k xss)) = block_offset n cats k"
      unfolding block_offset_def by (simp only: length_count_blocks)
    have "take k yss = map (\<lambda>(i, c). replicate (n c) (int i)) (enumerate 0 (take k cats))"
      using k by (simp add: yss_def take_map enumerate_eq_zip take_zip)
    then have offy: "length (concat (take k yss)) = block_offset n cats k"
      unfolding block_offset_def by (simp only: length_class_blocks)
    have kx: "k < length xss" and ky: "k < length yss"
      using k by (simp_all add: xss_def yss_def)
    have lx: "length (xss ! k) = n (cats ! k)"
      unfolding xk by (simp del: upt_Suc)
    have ly: "length (yss ! k) = n (cats ! k)"
      unfolding yk by simp
    from concat_block [OF kx, unfolded lx offx] have a: "take (n (cats ! k)) (drop (block_offset n cats k) idx)
        = map int [1 ..< n (cats ! k) + 1]"
      by (simp only: xk idx)
    from concat_block [OF ky, unfolded ly offy] have b: "take (n (cats ! k)) (drop (block_offset n cats k) ys)
        = replicate (n (cats ! k)) (int k)"
      by (simp only: yk ys)
    from class_blocks_count [OF k, of 0 n] have c: "length (filter (\<lambda>v. v = int k) ys) = n (cats ! k)"
      by (simp add: ys yss_def)
    from a b c show ?thesis by (simp only: simp_thms)
  qed
  have range: "list_all (\<lambda>v. 0 \<le> v \<and> v < int (length cats)) ys"
    unfolding list_all_iff
  proof
    fix v assume "v \<in> set ys"
    then have "v \<in> set (concat (map (\<lambda>(i, c). replicate (n c) (int i)) (enumerate 0 cats)))"
      by (simp add: ys yss_def)
    from class_blocks_range [OF this] show "0 \<le> v \<and> v < int (length cats)" by simp
  qed
  have srt: "sorted ys"
    unfolding ys yss_def by (rule class_blocks_sorted)
  show "index_invariant (the_count cnt) cats idx ys"
    unfolding index_invariant_def n_def [symmetric]
    using len_idx len_ys blocks range srt by (simp add: list_all_iff del: upt_Suc)
qed

lemma verify_target_types_Inr:
  "verify_target_types l = Inr tts \<Longrightarrow> tts = l \<and> set l \<subseteq> {''category'', ''annotation''}"
proof (induction l arbitrary: tts)
  case Nil
  then show ?case by simp
next
  case (Cons t ts)
  from Cons.prems obtain v vs where v: "verify_str_arg t ''target_type'' [''category'', ''annotation''] = Inr v"
    and vs: "verify_target_types ts = Inr vs" and tts: "tts = v # vs"
    by (auto simp: err_bind_Inr_iff)
  from v have "v = t" "t \<in> {''category'', ''annotation''}"
    by (auto simp: verify_str_arg_def split: if_splits)
  with Cons.IH [OF vs] tts show ?case by simp
qed

lemma scan101_Inr:
  assumes "scan101 r tts tr ttr t = Inr ds"
  shows "\<exists>names. listdir t (r @ [''101_ObjectCategories'']) = Inr names \<and>
           ''BACKGROUND_Google'' \<in> set names \<and>
           categories101 ds = remove1 ''BACKGROUND_Google'' (sort names)"
    and "root ds = r" and "transform ds = tr" and "target_transform ds = ttr"
    and "target_type ds = tts"
    and "annotation_categories ds = map annotation_category (categories101 ds)"
    and "extend_index (count101 t r) (enumerate 0 (categories101 ds)) ([], [])
           = Inr (index101 ds, y101 ds)"
proof -
  from assms obtain names cats idx ys where
    names: "listdir t (r @ [''101_ObjectCategories'']) = Inr names"
    and cats: "py_remove ''BACKGROUND_Google'' (sort names) = Inr cats"
    and ext: "extend_index (count101 t r) (enumerate 0 cats) ([], []) = Inr (idx, ys)"
    and ds: "ds = \<lparr>root = r, transform = tr, target_transform = ttr,
          target_type = tts, categories101 = cats,
          annotation_categories = map annotation_category cats,
          index101 = idx, y101 = ys\<rparr>"
    unfolding scan101_def by (auto simp: err_bind_Inr_iff)
  from cats have c: "''BACKGROUND_Google'' \<in> set names" "cats = remove1 ''BACKGROUND_Google'' (sort names)"
    by (auto simp: py_remove_def split: if_splits)
  show "\<exists>names. listdir t (r @ [''101_ObjectCategories'']) = Inr names \<and>
           ''BACKGROUND_Google'' \<in> set names \<and>
           categories101 ds = remove1 ''BACKGROUND_Google'' (sort names)"
    using names c ds by simp
  show "root ds = r" "transform ds = tr" "target_transform ds = ttr" "target_type ds = tts"
    "annotation_categories ds = map annotation_category (categories101 ds)"
    using ds by simp_all
  show "extend_index (count101 t r) (enumerate 0 (categories101 ds)) ([], [])
           = Inr (index101 ds, y101 ds)"
    using ext ds by simp
qed

lemma init101_Inr:
  assumes "init101 E rt tt tr ttr dl w = (Inr ds, w')"
  shows "verify_target_types (case tt of Str s \<Rightarrow> [s] | StrList l \<Rightarrow> l) = Inr (target_type ds)"
    and "check_integrity101 (rt @ [''caltech101'']) (files w')"
    and "scan101 (rt @ [''caltech101'']) (target_type ds) tr ttr (files w') = Inr ds"
proof -
  from assms obtain tts where
    v: "verify_target_types (case tt of Str s \<Rightarrow> [s] | StrList l \<Rightarrow> l) = Inr tts"
    and ci: "check_integrity101 (rt @ [''caltech101'']) (files w')"
    and sc: "scan101 (rt @ [''caltech101'']) tts tr ttr (files w') = Inr ds"
    unfolding init101_def
    by (auto simp: io_bind_Inr_iff io_lift_def split: if_splits)
  from scan101_Inr(5) [OF sc] have "target_type ds = tts" .
  with v ci sc show
    "verify_target_types (case tt of Str s \<Rightarrow> [s] | StrList l \<Rightarrow> l) = Inr (target_type ds)"
    "check_integrity101 (rt @ [''caltech101'']) (files w')"
    "scan101 (rt @ [''caltech101'']) (target_type ds) tr ttr (files w') = Inr ds"
    by simp_all
qed

lemma scan256_Inr:
  assumes "scan256 r tr ttr t = Inr ds"
  shows "\<exists>names. listdir t (r @ [''256_ObjectCategories'']) = Inr names \<and>
           categories256 ds = sort names"
    and "root ds = r" and "transform ds = tr" and "target_transform ds = ttr"
    and "extend_index (count256 t r) (enumerate 0 (categories256 ds)) ([], [])
           = Inr (index256 ds, y256 ds)"
proof -
  from assms obtain names idx ys where
    names: "listdir t (r @ [''256_ObjectCategories'']) = Inr names"
    and ext: "extend_index (count256 t r) (enumerate 0 (sort names)) ([], []) = Inr (idx, ys)"
    and ds: "ds = \<lparr>root = r, transform = tr, target_transform = ttr,
          categories256 = sort names, index256 = idx, y256 = ys\<rparr>"
    unfolding scan256_def by (auto simp: err_bind_Inr_iff)
  show "\<exists>names. listdir t (r @ [''256_ObjectCategories'']) = Inr names \<and>
           categories256 ds = sort names"
    using names ds by simp
  show "root ds = r" "transform ds = tr" "target_transform ds = ttr"
    using ds by simp_all
  show "extend_index (count256 t r) (enumerate 0 (categories256 ds)) ([], [])
           = Inr (index256 ds, y256 ds)"
    using ext ds by simp
qed

lemma init256_Inr:
  assumes "init256 E rt tr ttr dl w = (Inr ds, w')"
  shows "check_integrity256 (rt @ [''caltech256'']) (files w')"
    and "scan256 (rt @ [''caltech256'']) tr ttr (files w') = Inr ds"
  using assms unfolding init256_def
  by (auto simp: io_bind_Inr_iff io_lift_def split: if_splits)

lemma init101_index:
  assumes "init101 E rt tt tr ttr dl w = (Inr ds, w')"
  shows "extend_index (count101 (files w') (root ds)) (enumerate 0 (categories101 ds)) ([], [])
           = Inr (index101 ds, y101 ds)"
  using scan101_Inr(7) [OF init101_Inr(3) [OF assms]] scan101_Inr(2) [OF init101_Inr(3) [OF assms]]
  by simp

lemma init256_index:
  assumes "init256 E rt tr ttr dl w = (Inr ds, w')"
  shows "extend_index (count256 (files w') (root ds)) (enumerate 0 (categories256 ds)) ([], [])
           = Inr (index256 ds, y256 ds)"
  using scan256_Inr(5) [OF init256_Inr(2) [OF assms]] scan256_Inr(2) [OF init256_Inr(2) [OF assms]]
  by simp

subsection \<open>The sample index: auxiliary facts\<close>

lemma demo_counts:
  "the_count (count101 demo_tree [''data'', ''caltech101'']) ''Faces'' = 2"
  "the_count (count101 demo_tree [''data'', ''caltech101'']) ''b'' = 3"
  "the_count (count256 demo_tree [''data'', ''caltech256'']) ''001.ak47'' = 2"
  "the_count (count256 demo_tree [''data'', ''caltech256'']) ''002.flag'' = 3"
  "listdir demo_tree [''data'', ''caltech256'', ''256_ObjectCategories'', ''001.ak47'']
     = Inr [''001_0001.jpg'', ''notes.txt'', ''001_0002.jpg'']"
  by code_simp+

lemma index_invariant_consequences:
  assumes "index_invariant n cats idx ys"
  shows "\<forall>i < length ys. 0 \<le> ys ! i \<and> ys ! i < int (length cats)"
    and "\<forall>i j. i \<le> j \<and> j < length ys \<longrightarrow> ys ! i \<le> ys ! j"
proof -
  from assms have r: "list_all (\<lambda>v. 0 \<le> v \<and> v < int (length cats)) ys" and s: "sorted ys"
    by (simp_all add: index_invariant_def)
  from r show "\<forall>i < length ys. 0 \<le> ys ! i \<and> ys ! i < int (length cats)"
    by (simp add: list_all_length)
  from s show "\<forall>i j. i \<le> j \<and> j < length ys \<longrightarrow> ys ! i \<le> ys ! j"
    by (simp add: sorted_iff_nth_mono)
qed

lemma init101_categories_sorted:
  assumes "init101 E rt tt tr ttr dl w = (Inr ds, w')"
  shows "sorted (categories101 ds)"
proof -
  from scan101_Inr(1) [OF init101_Inr(3) [OF assms]] obtain names where
    "categories101 ds = remove1 ''BACKGROUND_Google'' (sort names)" by blast
  then show ?thesis by (simp add: sorted_remove1)
qed

lemma init256_categories_sorted:
  assumes "init256 E rt tr ttr dl w = (Inr ds, w')"
  shows "sorted (categories256 ds)"
proof -
  from scan256_Inr(1) [OF init256_Inr(2) [OF assms]] obtain names where
    "categories256 ds = sort names" by blast
  then show ?thesis by simp
qed

lemma py_getitem_in:
  "0 \<le> i \<Longrightarrow> i < int (length xs) \<Longrightarrow> py_getitem xs i = Inr (xs ! nat i)"
  by (simp add: py_getitem_def)

lemma py_getitem_out:
  "int (length xs) \<le> i \<or> i < - int (length xs) \<Longrightarrow> py_getitem xs i = Inl IndexError"
  by (auto simp: py_getitem_def)

lemma py_getitem_neg:
  "i < 0 \<Longrightarrow> - int (length xs) \<le> i \<Longrightarrow> py_getitem xs i = py_getitem xs (int (length xs) + i)"
  by (simp add: py_getitem_def)

lemma count_blocks_pos:
  "k \<in> set (concat (map (\<lambda>c. map int [1 ..< n c + 1]) cs)) \<Longrightarrow> 1 \<le> k"
  by (induction cs) (auto simp del: upt_Suc)

lemma extend_index_ordinals:
  assumes "extend_index cnt (enumerate 0 cats) ([], []) = Inr (idx, ys)"
  shows "\<forall>k \<in> set idx. 1 \<le> k"
proof -
  from extend_index_closed [OF assms]
  have "idx = concat (map (\<lambda>c. map int [1 ..< the_count cnt c + 1]) cats)" by simp
  then show ?thesis using count_blocks_pos [of _ "the_count cnt" cats] by blast
qed

lemma extend_index_consistent:
  assumes "extend_index cnt (enumerate 0 cats) ([], []) = Inr (idx, ys)"
  shows "consistent_index cats idx ys"
proof -
  note inv = extend_index_invariant(1) [OF assms]
  from inv have "length ys = length idx" by (simp add: index_invariant_def)
  moreover note index_invariant_consequences(1) [OF inv]
  moreover from extend_index_ordinals [OF assms] have "\<forall>i < length idx. 1 \<le> idx ! i"
    by simp
  ultimately show ?thesis by (simp add: consistent_index_def)
qed

lemma init101_consistent:
  assumes "init101 E rt tt tr ttr dl w = (Inr ds, w')"
  shows "consistent_index (categories101 ds) (index101 ds) (y101 ds)"
    and "annotation_categories ds = map annotation_category (categories101 ds)"
    and "set (target_type ds) \<subseteq> {''category'', ''annotation''}"
    and "root ds = rt @ [''caltech101'']"
    and "transform ds = tr" and "target_transform ds = ttr"
proof -
  note sc = init101_Inr(3) [OF assms]
  show "consistent_index (categories101 ds) (index101 ds) (y101 ds)"
    by (rule extend_index_consistent [OF init101_index [OF assms]])
  show "annotation_categories ds = map annotation_category (categories101 ds)"
    by (rule scan101_Inr(6) [OF sc])
  show "set (target_type ds) \<subseteq> {''category'', ''annotation''}"
    using verify_target_types_Inr [OF init101_Inr(1) [OF assms]] by simp
  show "root ds = rt @ [''caltech101'']" by (rule scan101_Inr(2) [OF sc])
  show "transform ds = tr" by (rule scan101_Inr(3) [OF sc])
  show "target_transform ds = ttr" by (rule scan101_Inr(4) [OF sc])
qed

lemma init256_consistent:
  assumes "init256 E rt tr ttr dl w = (Inr ds, w')"
  shows "consistent_index (categories256 ds) (index256 ds) (y256 ds)"
    and "root ds = rt @ [''caltech256'']"
    and "transform ds = tr" and "target_transform ds = ttr"
proof -
  note sc = init256_Inr(2) [OF assms]
  show "consistent_index (categories256 ds) (index256 ds) (y256 ds)"
    by (rule extend_index_consistent [OF init256_index [OF assms]])
  show "root ds = rt @ [''caltech256'']" by (rule scan256_Inr(2) [OF sc])
  show "transform ds = tr" by (rule scan256_Inr(3) [OF sc])
  show "target_transform ds = ttr" by (rule scan256_Inr(4) [OF sc])
qed

lemma image_path101_in_range:
  assumes c: "consistent_index (categories101 ds) (index101 ds) (y101 ds)"
    and i: "0 \<le> i" "i < len101 ds"
  shows "image_path101 ds i = Inr (root ds @ [''101_ObjectCategories'',
           categories101 ds ! nat (y101 ds ! nat i),
           ''image_'' @ format_0d 4 (index101 ds ! nat i) @ ''.jpg''])"
    and "1 \<le> index101 ds ! nat i"
    and "0 \<le> y101 ds ! nat i" and "y101 ds ! nat i < int (length (categories101 ds))"
proof -
  from i have n: "nat i < length (index101 ds)" by (simp add: len101_def)
  with c have ny: "nat i < length (y101 ds)" by (simp add: consistent_index_def)
  from c ny show y: "0 \<le> y101 ds ! nat i" "y101 ds ! nat i < int (length (categories101 ds))"
    by (simp_all add: consistent_index_def)
  from c n show "1 \<le> index101 ds ! nat i" by (simp add: consistent_index_def)
  have a: "py_getitem (y101 ds) i = Inr (y101 ds ! nat i)"
    using i ny by (intro py_getitem_in) simp_all
  have b: "py_getitem (categories101 ds) (y101 ds ! nat i)
      = Inr (categories101 ds ! nat (y101 ds ! nat i))"
    using y by (intro py_getitem_in) simp_all
  have d: "py_getitem (index101 ds) i = Inr (index101 ds ! nat i)"
    using i n by (intro py_getitem_in) simp_all
  show "image_path101 ds i = Inr (root ds @ [''101_ObjectCategories'',
           categories101 ds ! nat (y101 ds ! nat i),
           ''image_'' @ format_0d 4 (index101 ds ! nat i) @ ''.jpg''])"
    by (simp add: image_path101_def a b d err_bind_def)
qed

lemma image_path256_in_range:
  assumes c: "consistent_index (categories256 ds) (index256 ds) (y256 ds)"
    and i: "0 \<le> i" "i < len256 ds"
  shows "image_path256 ds i = Inr (root ds @ [''256_ObjectCategories'',
           categories256 ds ! nat (y256 ds ! nat i),
           format_0d 3 (y256 ds ! nat i + 1) @ ''_'' @ format_0d 4 (index256 ds ! nat i) @ ''.jpg''])"
    and "1 \<le> index256 ds ! nat i"
    and "0 \<le> y256 ds ! nat i" and "y256 ds ! nat i < int (length (categories256 ds))"
    and "py_getitem (y256 ds) i = Inr (y256 ds ! nat i)"
proof -
  from i have n: "nat i < length (index256 ds)" by (simp add: len256_def)
  with c have ny: "nat i < length (y256 ds)" by (simp add: consistent_index_def)
  from c ny show y: "0 \<le> y256 ds ! nat i" "y256 ds ! nat i < int (length (categories256 ds))"
    by (simp_all add: consistent_index_def)
  from c n show "1 \<le> index256 ds ! nat i" by (simp add: consistent_index_def)
  show a: "py_getitem (y256 ds) i = Inr (y256 ds ! nat i)"
    using i ny by (intro py_getitem_in) simp_all
  have b: "py_getitem (categories256 ds) (y256 ds ! nat i)
      = Inr (categories256 ds ! nat (y256 ds ! nat i))"
    using y by (intro py_getitem_in) simp_all
  have d: "py_getitem (index256 ds) i = Inr (index256 ds ! nat i)"
    using i n by (intro py_getitem_in) simp_all
  show "image_path256 ds i = Inr (root ds @ [''256_ObjectCategories'',
           categories256 ds ! nat (y256 ds ! nat i),
           format_0d 3 (y256 ds ! nat i + 1) @ ''_'' @ format_0d 4 (index256 ds ! nat i) @ ''.jpg''])"
    by (simp add: image_path256_def a b d err_bind_def)
qed

lemma get101_Inr:
  assumes "get101 E t ds i = Inr (img, tgt)"
  shows "scipy_importable E"
    and "\<exists>p img0 target base. image_path101 ds i = Inr p \<and> Image_open E t p = Inr img0 \<and>
           collect_targets E t ds i (target_type ds) [] = Inr target \<and>
           pack_target target = Inr base \<and>
           apply_optional (transform ds) img0 = Inr img \<and>
           apply_optional (target_transform ds) base = Inr tgt"
  using assms unfolding get101_def
  by (auto simp: err_bind_Inr_iff split: if_splits)

lemma get256_Inr:
  assumes "get256 E t ds i = Inr (img, tgt)"
  shows "\<exists>p img0 target. image_path256 ds i = Inr p \<and> Image_open E t p = Inr img0 \<and>
           py_getitem (y256 ds) i = Inr target \<and>
           apply_optional (transform ds) img0 = Inr img \<and>
           apply_optional (target_transform ds) target = Inr tgt"
  using assms unfolding get256_def
  by (auto simp: err_bind_Inr_iff)

lemma annotation_path101_in_range:
  assumes c: "consistent_index (categories101 ds) (index101 ds) (y101 ds)"
    and a: "annotation_categories ds = map annotation_category (categories101 ds)"
    and i: "0 \<le> i" "i < len101 ds"
  shows "annotation_path101 ds i = Inr (root ds @ [''Annotations'',
           annotation_category (categories101 ds ! nat (y101 ds ! nat i)),
           ''annotation_'' @ format_0d 4 (index101 ds ! nat i) @ ''.mat''])"
proof -
  from i have n: "nat i < length (index101 ds)" by (simp add: len101_def)
  with c have ny: "nat i < length (y101 ds)" by (simp add: consistent_index_def)
  from c ny have y: "0 \<le> y101 ds ! nat i" "y101 ds ! nat i < int (length (categories101 ds))"
    by (simp_all add: consistent_index_def)
  have p: "py_getitem (y101 ds) i = Inr (y101 ds ! nat i)"
    using i ny by (intro py_getitem_in) simp_all
  have "py_getitem (annotation_categories ds) (y101 ds ! nat i)
      = Inr (annotation_categories ds ! nat (y101 ds ! nat i))"
    using y a by (intro py_getitem_in) simp_all
  moreover have "annotation_categories ds ! nat (y101 ds ! nat i)
      = annotation_category (categories101 ds ! nat (y101 ds ! nat i))"
    using y a by simp
  ultimately have b: "py_getitem (annotation_categories ds) (y101 ds ! nat i)
      = Inr (annotation_category (categories101 ds ! nat (y101 ds ! nat i)))" by simp
  have d: "py_getitem (index101 ds) i = Inr (index101 ds ! nat i)"
    using i n by (intro py_getitem_in) simp_all
  show ?thesis by (simp add: annotation_path101_def p b d err_bind_def)
qed

lemma format_0d_4_small: "0 \<le> k \<Longrightarrow> k < 10000 \<Longrightarrow> length (format_0d 4 k) = 4"
  by (rule format_0d_width) simp_all

lemma format_0d_3_small: "0 \<le> k \<Longrightarrow> k < 1000 \<Longrightarrow> length (format_0d 3 k) = 3"
  by (rule format_0d_width) simp_all

lemma format_0d_min_width: "0 \<le> k \<Longrightarrow> w \<le> length (format_0d w k)"
  by (simp add: format_0d_length)

subsection \<open>Lookup: auxiliary facts\<close>

lemma demo_formats:
  "format_0d 4 1 = ''0001''" "format_0d 4 2 = ''0002''" "format_0d 4 3 = ''0003''"
  "format_0d 3 1 = ''001''" "format_0d 3 2 = ''002''"
  by code_simp+

lemma annotation_category_cases:
  "annotation_category ''Faces'' = ''Faces_2''"
  "annotation_category ''Faces_easy'' = ''Faces_3''"
  "annotation_category ''Motorbikes'' = ''Motorbikes_16''"
  "annotation_category ''airplanes'' = ''Airplanes_Side_2''"
  "c \<notin> set (map fst name_map) \<Longrightarrow> annotation_category c = c"
  by (simp_all add: annotation_category_def name_map_def)

lemma demo_init101_any:
  assumes "verify_target_types (case tt of Str s \<Rightarrow> [s] | StrList l \<Rightarrow> l) = Inr tts"
  shows "init101 demo_env [''data''] tt None None False demo_world = (Inr (demo101 tts), demo_world)"
  using assms
  by (simp add: init101_def io_bind_def os_makedirs_def demo_world_def demo_makedirs101
        io_lift_def io_return_def demo_scan101_parts demo_scan101)

lemma demo_init101_category:
  "init101 demo_env [''data''] (Str ''category'') None None False demo_world
     = (Inr (demo101 [''category'']), demo_world)"
  by (rule demo_init101_any) (simp add: verify_str_arg_def err_bind_def)

lemma image_path101_out:
  assumes c: "consistent_index (categories101 ds) (index101 ds) (y101 ds)"
    and i: "len101 ds \<le> i \<or> i < - len101 ds"
  shows "image_path101 ds i = Inl IndexError"
proof -
  from c have "int (length (y101 ds)) = len101 ds"
    by (simp add: consistent_index_def len101_def)
  with i have "py_getitem (y101 ds) i = Inl IndexError"
    by (intro py_getitem_out) simp
  then show ?thesis by (simp add: image_path101_def err_bind_def)
qed

lemma image_path256_out:
  assumes c: "consistent_index (categories256 ds) (index256 ds) (y256 ds)"
    and i: "len256 ds \<le> i \<or> i < - len256 ds"
  shows "image_path256 ds i = Inl IndexError"
proof -
  from c have "int (length (y256 ds)) = len256 ds"
    by (simp add: consistent_index_def len256_def)
  with i have "py_getitem (y256 ds) i = Inl IndexError"
    by (intro py_getitem_out) simp
  then show ?thesis by (simp add: image_path256_def err_bind_def)
qed

lemma collect_targets_cong:
  assumes "py_getitem (y101 ds) i = py_getitem (y101 ds) j"
    and "annotation_path101 ds i = annotation_path101 ds j"
  shows "collect_targets E t ds i ks acc = collect_targets E t ds j ks acc"
  using assms by (induction ks arbitrary: acc) simp_all

lemma get101_negative:
  assumes c: "consistent_index (categories101 ds) (index101 ds) (y101 ds)"
    and i: "- len101 ds \<le> i" "i < 0"
  shows "get101 E t ds i = get101 E t ds (len101 ds + i)"
proof -
  from c have ly: "int (length (y101 ds)) = len101 ds"
    by (simp add: consistent_index_def len101_def)
  have li: "int (length (index101 ds)) = len101 ds" by (simp add: len101_def)
  have y: "py_getitem (y101 ds) i = py_getitem (y101 ds) (len101 ds + i)"
    using py_getitem_neg [of i "y101 ds"] i ly by simp
  have x: "py_getitem (index101 ds) i = py_getitem (index101 ds) (len101 ds + i)"
    using py_getitem_neg [of i "index101 ds"] i li by simp
  have p: "image_path101 ds i = image_path101 ds (len101 ds + i)"
    by (simp add: image_path101_def y x)
  have a: "annotation_path101 ds i = annotation_path101 ds (len101 ds + i)"
    by (simp add: annotation_path101_def y x)
  show ?thesis
    by (simp add: get101_def p collect_targets_cong [OF y a])
qed

lemma get256_negative:
  assumes c: "consistent_index (categories256 ds) (index256 ds) (y256 ds)"
    and i: "- len256 ds \<le> i" "i < 0"
  shows "get256 E t ds i = get256 E t ds (len256 ds + i)"
proof -
  from c have ly: "int (length (y256 ds)) = len256 ds"
    by (simp add: consistent_index_def len256_def)
  have li: "int (length (index256 ds)) = len256 ds" by (simp add: len256_def)
  have y: "py_getitem (y256 ds) i = py_getitem (y256 ds) (len256 ds + i)"
    using py_getitem_neg [of i "y256 ds"] i ly by simp
  have x: "py_getitem (index256 ds) i = py_getitem (index256 ds) (len256 ds + i)"
    using py_getitem_neg [of i "index256 ds"] i li by simp
  have p: "image_path256 ds i = image_path256 ds (len256 ds + i)"
    by (simp add: image_path256_def y x)
  show ?thesis
    by (simp add: get256_def p y)
qed

subsection \<open>Lookup: indices out of range\<close>

text \<open>
  C1, as the code has it. The claim that every index outside \<open>[0, N)\<close> fails is refuted
  by the index \<open>-1\<close>, which Python's list indexing reads from the end: on the small
  dataset both variants return the last sample.
\<close>

theorem negative_index_counterexample:
  "init101 demo_env [''data''] (Str ''category'') None None False demo_world
     = (Inr (demo101 [''category'']), demo_world) \<and>
   len101 (demo101 [''category'']) = 5 \<and> (- 1 :: int) < 0 \<and>
   get101 demo_env demo_tree (demo101 [''category'']) (- 1) = Inr (''b3'', Single (ClassId 1)) \<and>
   get101 demo_env demo_tree (demo101 [''category'']) (- 1) \<noteq> Inl IndexError \<and>
   init256 demo_env [''data''] None None False demo_world = (Inr demo256, demo_world) \<and>
   len256 demo256 = 5 \<and>
   get256 demo_env demo_tree demo256 (- 1) = Inr (''q3'', 1) \<and>
   get256 demo_env demo_tree demo256 (- 1) \<noteq> Inl IndexError"
proof -
  have a: "get101 demo_env demo_tree (demo101 [''category'']) (- 1) = Inr (''b3'', Single (ClassId 1))"
    by code_simp
  have b: "get256 demo_env demo_tree demo256 (- 1) = Inr (''q3'', 1)"
    by code_simp
  have l: "len101 (demo101 [''category'']) = 5" "len256 demo256 = 5"
    by (simp_all add: len101_def len256_def demo101_def demo256_def)
  from a b l demo_init101_category demo_init256 show ?thesis by simp
qed

text \<open>
  C1, amended. For every constructed dataset, a lookup with \<open>i \<ge> N\<close> or \<open>i < -N\<close> fails
  with an index error (in Caltech 101 provided \<^verbatim>\<open>import scipy.io\<close> succeeds; otherwise the
  import error comes first). An index with \<open>-N \<le> i < 0\<close> is not refused: the lookup
  behaves as for \<open>N + i\<close>.
\<close>

theorem index_error_outside_both_ranges:
  "(init101 E rt tt tr ttr dl w = (Inr ds, w') \<longrightarrow>
      (scipy_importable E \<longrightarrow> len101 ds \<le> i \<or> i < - len101 ds \<longrightarrow>
         get101 E t ds i = Inl IndexError) \<and>
      (\<not> scipy_importable E \<longrightarrow> get101 E t ds i = Inl ImportError) \<and>
      (- len101 ds \<le> i \<and> i < 0 \<longrightarrow> get101 E t ds i = get101 E t ds (len101 ds + i))) \<and>
   (init256 E2 rt2 tr2 ttr2 dl2 w2 = (Inr ds2, w2') \<longrightarrow>
      (len256 ds2 \<le> j \<or> j < - len256 ds2 \<longrightarrow> get256 E2 t2 ds2 j = Inl IndexError) \<and>
      (- len256 ds2 \<le> j \<and> j < 0 \<longrightarrow> get256 E2 t2 ds2 j = get256 E2 t2 ds2 (len256 ds2 + j)))"
proof (intro conjI impI)
  assume a: "init101 E rt tt tr ttr dl w = (Inr ds, w')"
  note c = init101_consistent(1) [OF a]
  show "get101 E t ds i = Inl IndexError"
    if "scipy_importable E" "len101 ds \<le> i \<or> i < - len101 ds"
    using that(1) image_path101_out [OF c that(2)] by (simp add: get101_def err_bind_def)
  show "get101 E t ds i = Inl ImportError" if "\<not> scipy_importable E"
    using that by (simp add: get101_def)
  show "get101 E t ds i = get101 E t ds (len101 ds + i)" if "- len101 ds \<le> i \<and> i < 0"
    using that get101_negative [OF c] by blast
next
  assume a: "init256 E2 rt2 tr2 ttr2 dl2 w2 = (Inr ds2, w2')"
  note c = init256_consistent(1) [OF a]
  show "get256 E2 t2 ds2 j = Inl IndexError" if "len256 ds2 \<le> j \<or> j < - len256 ds2"
    using image_path256_out [OF c that] by (simp add: get256_def err_bind_def)
  show "get256 E2 t2 ds2 j = get256 E2 t2 ds2 (len256 ds2 + j)" if "- len256 ds2 \<le> j \<and> j < 0"
    using that get256_negative [OF c] by blast
qed

theorem index_error_outside_both_ranges_witness:
  "init101 demo_env [''data''] (Str ''category'') None None False demo_world
     = (Inr (demo101 [''category'']), demo_world) \<and>
   scipy_importable demo_env \<and> len101 (demo101 [''category'']) = 5 \<and>
   get101 demo_env demo_tree (demo101 [''category'']) 5 = Inl IndexError \<and>
   get101 demo_env demo_tree (demo101 [''category'']) (- 6) = Inl IndexError \<and>
   get101 demo_env demo_tree (demo101 [''category'']) (- 5)
     = get101 demo_env demo_tree (demo101 [''category'']) 0 \<and>
   get101 (demo_env\<lparr>scipy_importable := False\<rparr>) demo_tree (demo101 [''category'']) 7
     = Inl ImportError \<and>
   init256 demo_env [''data''] None None False demo_world = (Inr demo256, demo_world) \<and>
   len256 demo256 = 5 \<and>
   get256 demo_env demo_tree demo256 5 = Inl IndexError \<and>
   get256 demo_env demo_tree demo256 (- 6) = Inl IndexError \<and>
   get256 demo_env demo_tree demo256 (- 5) = get256 demo_env demo_tree demo256 0"
proof -
  have l: "len101 (demo101 [''category'']) = 5" "len256 demo256 = 5"
    by (simp_all add: len101_def len256_def demo101_def demo256_def)
  have s: "scipy_importable demo_env" by (simp add: demo_env_def)
  have i2: "init101 (demo_env\<lparr>scipy_importable := False\<rparr>) [''data''] (Str ''category'') None None
      False demo_world = (Inr (demo101 [''category'']), demo_world)"
    using demo_init101_category by (simp add: init101_def download101_def)
  note t = index_error_outside_both_ranges [of _ "[''data'']" "Str ''category''" None None False
      demo_world "demo101 [''category'']" demo_world _ demo_tree
      demo_env "[''data'']" None None False demo_world demo256 demo_world _ demo_tree]
  from t [of demo_env 5 5] t [of demo_env "- 6" "- 6"] t [of demo_env "- 5" "- 5"]
    t [of "demo_env\<lparr>scipy_importable := False\<rparr>" 7 5]
    demo_init101_category demo_init256 i2 l s
  show ?thesis by simp
qed

lemma makedirs_existing: "isdir t p \<Longrightarrow> makedirs t p = Inr t"
proof (induction t p rule: makedirs.induct)
  case (1 es)
  then show ?case by simp
next
  case (2 b)
  then show ?case by (simp add: isdir_def)
next
  case (3 b c cs)
  then show ?case by (simp add: isdir_def)
next
  case (4 es c cs)
  show ?case
  proof (cases "map_of es c")
    case None
    with 4 show ?thesis by (simp add: isdir_def)
  next
    case (Some m)
    with "4.prems" have "isdir m cs" by (simp add: isdir_def)
    with "4.IH"(2) [OF Some] have "makedirs m cs = Inr m" by simp
    with Some show ?thesis by (simp add: err_bind_def update_triv)
  qed
qed

lemma verify_target_types_Inl:
  "find (\<lambda>t. t \<notin> set [''category'', ''annotation'']) ts = Some v \<Longrightarrow>
     verify_target_types ts = Inl (InvalidStrArg v ''target_type'' [''category'', ''annotation''])"
proof (induction ts)
  case Nil
  then show ?case by simp
next
  case (Cons t ts)
  show ?case
  proof (cases "t \<in> set [''category'', ''annotation'']")
    case True
    with Cons.prems have "find (\<lambda>t. t \<notin> set [''category'', ''annotation'']) ts = Some v"
      by auto
    from Cons.IH [OF this] True show ?thesis
      by (simp add: verify_str_arg_def err_bind_def)
  next
    case False
    with Cons.prems have "v = t" by simp
    with False show ?thesis by (simp add: verify_str_arg_def err_bind_def)
  qed
qed

subsection \<open>Construction: validation of the target kinds\<close>

text \<open>
  C2, as the code has it. Constructing Caltech 101 on an empty disk with the target kind
  \<open>bogus\<close> fails with the validation error, but \<^verbatim>\<open>os.makedirs(self.root)\<close> has run before
  the validation: the disk now holds the root directory.
\<close>

theorem invalid_target_type_counterexample:
  "init101 demo_env [''data''] (Str ''bogus'') None None False empty_world
     = (Inl (InvalidStrArg ''bogus'' ''target_type'' [''category'', ''annotation'']),
        \<lparr>files = Dir [(''data'', Dir [(''caltech101'', Dir [])])], fetched = []\<rparr>) \<and>
   files empty_world = Dir [] \<and>
   \<not> path_exists (files empty_world) [''data'', ''caltech101''] \<and>
   path_exists (Dir [(''data'', Dir [(''caltech101'', Dir [])])]) [''data'', ''caltech101'']"
  by (simp add: init101_def io_bind_def os_makedirs_def empty_world_def err_bind_def
        io_lift_def verify_str_arg_def path_exists_def)

text \<open>
  C2, amended. When some requested target kind is outside \<open>{category, annotation}\<close>,
  constructing Caltech 101 fails with a validation error that names the first invalid
  value and the allowed set. Before failing it has made the dataset root directory
  (\<^verbatim>\<open>os.makedirs\<close> with \<^verbatim>\<open>exist_ok\<close>) and done nothing else: nothing is downloaded and no
  directory is listed, and a root that already exists leaves the disk as it was. When the
  root cannot be made, that error is raised instead.
\<close>

theorem invalid_target_type_rejected:
  "find (\<lambda>t. t \<notin> set [''category'', ''annotation'']) (case tt of Str s \<Rightarrow> [s] | StrList l \<Rightarrow> l)
      = Some v \<longrightarrow>
     init101 E rt tt tr ttr dl w =
       (case makedirs (files w) (rt @ [''caltech101'']) of
          Inl e \<Rightarrow> (Inl e, w)
        | Inr t' \<Rightarrow>
            (Inl (InvalidStrArg v ''target_type'' [''category'', ''annotation'']), w\<lparr>files := t'\<rparr>)) \<and>
     (isdir (files w) (rt @ [''caltech101'']) \<longrightarrow>
        init101 E rt tt tr ttr dl w =
          (Inl (InvalidStrArg v ''target_type'' [''category'', ''annotation'']), w))"
proof (intro impI)
  assume f: "find (\<lambda>t. t \<notin> set [''category'', ''annotation''])
      (case tt of Str s \<Rightarrow> [s] | StrList l \<Rightarrow> l) = Some v"
  note e = verify_target_types_Inl [OF f]
  have a: "init101 E rt tt tr ttr dl w =
       (case makedirs (files w) (rt @ [''caltech101'']) of
          Inl e \<Rightarrow> (Inl e, w)
        | Inr t' \<Rightarrow>
            (Inl (InvalidStrArg v ''target_type'' [''category'', ''annotation'']), w\<lparr>files := t'\<rparr>))"
    by (simp add: init101_def io_bind_def os_makedirs_def io_lift_def e split: sum.splits)
  moreover have "init101 E rt tt tr ttr dl w =
          (Inl (InvalidStrArg v ''target_type'' [''category'', ''annotation'']), w)"
    if "isdir (files w) (rt @ [''caltech101''])"
    using a makedirs_existing [OF that] by simp
  ultimately show "init101 E rt tt tr ttr dl w =
       (case makedirs (files w) (rt @ [''caltech101'']) of
          Inl e \<Rightarrow> (Inl e, w)
        | Inr t' \<Rightarrow>
            (Inl (InvalidStrArg v ''target_type'' [''category'', ''annotation'']), w\<lparr>files := t'\<rparr>)) \<and>
     (isdir (files w) (rt @ [''caltech101'']) \<longrightarrow>
        init101 E rt tt tr ttr dl w =
          (Inl (InvalidStrArg v ''target_type'' [''category'', ''annotation'']), w))"
    by blast
qed

lemma demo_isdir_root: "isdir (files demo_world) [''data'', ''caltech101'']"
  unfolding demo_world_def by code_simp

theorem invalid_target_type_rejected_witness:
  "find (\<lambda>t. t \<notin> set [''category'', ''annotation'']) [''category'', ''contour''] = Some ''contour'' \<and>
   isdir (files demo_world) [''data'', ''caltech101''] \<and>
   init101 demo_env [''data''] (StrList [''category'', ''contour'']) None None True demo_world
     = (Inl (InvalidStrArg ''contour'' ''target_type'' [''category'', ''annotation'']), demo_world)"
proof -
  have f: "find (\<lambda>t. t \<notin> set [''category'', ''annotation'']) [''category'', ''contour''] = Some ''contour''"
    by simp
  have pre: "find (\<lambda>t. t \<notin> set [''category'', ''annotation''])
      (case StrList [''category'', ''contour''] of Str s \<Rightarrow> [s] | StrList l \<Rightarrow> l) = Some ''contour''"
    by simp
  have ir: "isdir (files demo_world) ([''data''] @ [''caltech101''])"
    using demo_isdir_root by simp
  note t = invalid_target_type_rejected [of "StrList [''category'', ''contour'']" "''contour''"
      demo_env "[''data'']" None None True demo_world]
  from t [THEN mp, OF pre, THEN conjunct2, THEN mp, OF ir]
  have "init101 demo_env [''data''] (StrList [''category'', ''contour'']) None None True demo_world
     = (Inl (InvalidStrArg ''contour'' ''target_type'' [''category'', ''annotation'']), demo_world)" .
  with f demo_isdir_root show ?thesis by (simp only: simp_thms)
qed

lemma listdir_exists: "listdir t p = Inr names \<Longrightarrow> path_exists t p"
  by (auto simp: listdir_def path_exists_def split: sum.splits)

lemma scan101_no_background:
  assumes "listdir t (r @ [''101_ObjectCategories'']) = Inr names"
    and "''BACKGROUND_Google'' \<notin> set names"
  shows "scan101 r tts tr ttr t = Inl ListRemoveValueError"
  using assms by (simp add: scan101_def err_bind_def py_remove_def)

lemma no_background_parts:
  "makedirs no_background_tree [''data'', ''caltech101''] = Inr no_background_tree"
  "listdir no_background_tree [''data'', ''caltech101'', ''101_ObjectCategories''] = Inr [''a'']"
  "check_integrity101 [''data'', ''caltech101''] no_background_tree"
  by code_simp+

subsection \<open>Construction: the category list\<close>

text \<open>
  C3, as the code has it. On a Caltech 101 layout without the background folder the
  construction does not succeed: \<^verbatim>\<open>self.categories.remove("BACKGROUND_Google")\<close> raises,
  since \<^verbatim>\<open>list.remove\<close> requires the element to be present.
\<close>

theorem missing_background_counterexample:
  "listdir (files no_background_world) [''data'', ''caltech101'', ''101_ObjectCategories''] = Inr [''a''] \<and>
   init101 demo_env [''data''] (Str ''category'') None None False no_background_world
     = (Inl ListRemoveValueError, no_background_world)"
  by (simp add: init101_def io_bind_def os_makedirs_def no_background_world_def
        no_background_parts io_lift_def io_return_def verify_str_arg_def err_bind_def
        scan101_no_background [of _ _ "[''a'']"])

text \<open>
  C3, amended. When the construction of Caltech 101 succeeds, the listing of the image
  root contains the background sentinel, and the category list is the lexicographically
  sorted listing with the (first occurrence of the) sentinel removed; it is sorted and,
  the listing having no duplicates, holds exactly the other names. When the listing does
  not contain the sentinel, the construction fails with the error of \<^verbatim>\<open>list.remove\<close>
  (stated here for a construction without download).
\<close>

theorem categories_sorted_without_background:
  "(init101 E rt tt tr ttr dl w = (Inr ds, w') \<longrightarrow>
      (\<exists>names. listdir (files w') (rt @ [''caltech101'', ''101_ObjectCategories'']) = Inr names \<and>
         ''BACKGROUND_Google'' \<in> set names \<and>
         categories101 ds = remove1 ''BACKGROUND_Google'' (sort names) \<and>
         sorted (categories101 ds) \<and>
         (distinct names \<longrightarrow> set (categories101 ds) = set names - {''BACKGROUND_Google''} \<and>
            distinct (categories101 ds)))) \<and>
   (makedirs (files w) (rt @ [''caltech101'']) = Inr t' \<and>
    verify_target_types (case tt of Str s \<Rightarrow> [s] | StrList l \<Rightarrow> l) = Inr tts \<and>
    listdir t' (rt @ [''caltech101'', ''101_ObjectCategories'']) = Inr names' \<and>
    ''BACKGROUND_Google'' \<notin> set names' \<longrightarrow>
      init101 E rt tt tr ttr False w = (Inl ListRemoveValueError, w\<lparr>files := t'\<rparr>))"
proof (intro conjI impI)
  assume a: "init101 E rt tt tr ttr dl w = (Inr ds, w')"
  from scan101_Inr(1) [OF init101_Inr(3) [OF a]] obtain names where
    n: "listdir (files w') (rt @ [''caltech101'', ''101_ObjectCategories'']) = Inr names"
      "''BACKGROUND_Google'' \<in> set names"
      "categories101 ds = remove1 ''BACKGROUND_Google'' (sort names)"
    by auto
  have "set (categories101 ds) = set names - {''BACKGROUND_Google''} \<and> distinct (categories101 ds)"
    if "distinct names"
    using that n(3) by simp
  with n init101_categories_sorted [OF a]
  show "\<exists>names. listdir (files w') (rt @ [''caltech101'', ''101_ObjectCategories'']) = Inr names \<and>
         ''BACKGROUND_Google'' \<in> set names \<and>
         categories101 ds = remove1 ''BACKGROUND_Google'' (sort names) \<and>
         sorted (categories101 ds) \<and>
         (distinct names \<longrightarrow> set (categories101 ds) = set names - {''BACKGROUND_Google''} \<and>
            distinct (categories101 ds))"
    by blast
next
  assume b: "makedirs (files w) (rt @ [''caltech101'']) = Inr t' \<and>
    verify_target_types (case tt of Str s \<Rightarrow> [s] | StrList l \<Rightarrow> l) = Inr tts \<and>
    listdir t' (rt @ [''caltech101'', ''101_ObjectCategories'']) = Inr names' \<and>
    ''BACKGROUND_Google'' \<notin> set names'"
  then have l: "listdir t' ((rt @ [''caltech101'']) @ [''101_ObjectCategories'']) = Inr names'"
    by simp
  from listdir_exists [OF l] have ci: "check_integrity101 (rt @ [''caltech101'']) t'"
    by (simp add: check_integrity101_def)
  from b have nb: "''BACKGROUND_Google'' \<notin> set names'" by simp
  note sc = scan101_no_background [OF l nb]
  from b ci sc show "init101 E rt tt tr ttr False w = (Inl ListRemoveValueError, w\<lparr>files := t'\<rparr>)"
    by (simp add: init101_def io_bind_def os_makedirs_def io_lift_def io_return_def)
qed

theorem categories_sorted_without_background_witness:
  "init101 demo_env [''data''] (Str ''category'') None None False demo_world
     = (Inr (demo101 [''category'']), demo_world) \<and>
   listdir (files demo_world) [''data'', ''caltech101'', ''101_ObjectCategories'']
     = Inr [''b'', ''BACKGROUND_Google'', ''Faces''] \<and>
   categories101 (demo101 [''category''])
     = remove1 ''BACKGROUND_Google'' (sort [''b'', ''BACKGROUND_Google'', ''Faces'']) \<and>
   categories101 (demo101 [''category'']) = [''Faces'', ''b''] \<and>
   makedirs (files no_background_world) [''data'', ''caltech101''] = Inr no_background_tree \<and>
   listdir no_background_tree [''data'', ''caltech101'', ''101_ObjectCategories''] = Inr [''a''] \<and>
   init101 demo_env [''data''] (Str ''annotation'') None None False no_background_world
     = (Inl ListRemoveValueError, no_background_world)"
proof -
  note t1 = categories_sorted_without_background [where E = demo_env and rt = "[''data'']"
      and tt = "Str ''category''" and tr = None and ttr = None and dl = False
      and w = demo_world and ds = "demo101 [''category'']" and w' = demo_world]
  note t2 = categories_sorted_without_background [where E = demo_env and rt = "[''data'']"
      and tt = "Str ''annotation''" and tr = None and ttr = None
      and w = no_background_world and t' = no_background_tree
      and tts = "[''annotation'']" and names' = "[''a'']"]
  have l: "listdir (files demo_world) [''data'', ''caltech101'', ''101_ObjectCategories'']
     = Inr [''b'', ''BACKGROUND_Google'', ''Faces'']"
    by (simp add: demo_world_def demo_scan101_parts)
  from t1 [THEN conjunct1, THEN mp, OF demo_init101_category] l
  have c: "categories101 (demo101 [''category''])
     = remove1 ''BACKGROUND_Google'' (sort [''b'', ''BACKGROUND_Google'', ''Faces''])"
    by auto
  have c': "categories101 (demo101 [''category'']) = [''Faces'', ''b'']"
    by (simp add: demo101_def)
  have m: "makedirs (files no_background_world) ([''data''] @ [''caltech101'']) = Inr no_background_tree"
    and v: "verify_target_types (case Str ''annotation'' of Str s \<Rightarrow> [s] | StrList l \<Rightarrow> l)
      = Inr [''annotation'']"
    and l2: "listdir no_background_tree ([''data''] @ [''caltech101'', ''101_ObjectCategories'']) = Inr [''a'']"
    and nb: "''BACKGROUND_Google'' \<notin> set [''a'']"
    by (simp_all add: no_background_world_def no_background_parts verify_str_arg_def err_bind_def)
  from t2 [THEN conjunct2, THEN mp, OF conjI [OF m conjI [OF v conjI [OF l2 nb]]]]
  have f: "init101 demo_env [''data''] (Str ''annotation'') None None False no_background_world
     = (Inl ListRemoveValueError, no_background_world)"
    by (simp add: no_background_world_def)
  from demo_init101_category l c c' m l2 f show ?thesis by simp
qed

lemma collect_targets_values:
  assumes y: "py_getitem (y101 ds) i = Inr (y101 ds ! nat i)"
    and a: "annotation_path101 ds i = Inr (root ds @ [''Annotations'',
           annotation_category (categories101 ds ! nat (y101 ds ! nat i)),
           ''annotation_'' @ format_0d 4 (index101 ds ! nat i) @ ''.mat''])"
    and ks: "set ks \<subseteq> {''category'', ''annotation''}"
    and c: "collect_targets E t ds i ks acc = Inr vals"
  shows "\<exists>vs. vals = acc @ vs \<and> map (requested_value E t ds i) ks = map Inr vs"
  using ks c
proof (induction ks arbitrary: acc)
  case Nil
  then show ?case by simp
next
  case (Cons k ks)
  from Cons.prems(1) have k: "k = ''category'' \<or> k = ''annotation''" and ks': "set ks \<subseteq> {''category'', ''annotation''}"
    by auto
  from k show ?case
  proof
    assume kc: "k = ''category''"
    with Cons.prems(2) y have "collect_targets E t ds i ks (acc @ [ClassId (y101 ds ! nat i)]) = Inr vals"
      by (simp add: err_bind_def)
    from Cons.IH [OF ks' this] obtain vs where
      "vals = (acc @ [ClassId (y101 ds ! nat i)]) @ vs" "map (requested_value E t ds i) ks = map Inr vs"
      by blast
    then have "vals = acc @ (ClassId (y101 ds ! nat i) # vs)"
      "map (requested_value E t ds i) ks = map Inr vs" by simp_all
    moreover have "requested_value E t ds i ''category'' = Inr (ClassId (y101 ds ! nat i))"
      by (simp add: requested_value_def)
    ultimately show ?thesis using kc by simp
  next
    assume ka: "k = ''annotation''"
    with Cons.prems(2) a obtain data v where
      d: "loadmat E t (root ds @ [''Annotations'',
           annotation_category (categories101 ds ! nat (y101 ds ! nat i)),
           ''annotation_'' @ format_0d 4 (index101 ds ! nat i) @ ''.mat'']) = Inr data"
      and v: "dict_getitem data ''obj_contour'' = Inr v"
      and r: "collect_targets E t ds i ks (acc @ [ObjContour v]) = Inr vals"
      by (auto simp: err_bind_Inr_iff)
    from Cons.IH [OF ks' r] obtain vs where
      "vals = (acc @ [ObjContour v]) @ vs" "map (requested_value E t ds i) ks = map Inr vs"
      by blast
    then have "vals = acc @ (ObjContour v # vs)"
      "map (requested_value E t ds i) ks = map Inr vs" by simp_all
    moreover have "requested_value E t ds i ''annotation'' = Inr (ObjContour v)"
      using d v by (simp add: requested_value_def err_bind_def)
    ultimately show ?thesis using ka by simp
  qed
qed

lemma pack_target_Inr:
  "pack_target vals = Inr base \<Longrightarrow>
     vals \<noteq> [] \<and> base = (if length vals > 1 then Tuple vals else Single (vals ! 0))"
  by (auto simp: pack_target_def py_getitem_def err_bind_def split: if_splits)

lemma get101_target:
  assumes a: "init101 E rt tt tr ttr dl w = (Inr ds, w')"
    and i: "0 \<le> i" "i < len101 ds"
    and g: "get101 E t ds i = Inr (img, tgt)"
  shows "\<exists>vals. map (requested_value E t ds i) (target_type ds) = map Inr vals \<and> vals \<noteq> [] \<and>
           apply_optional (target_transform ds)
             (if length vals > 1 then Tuple vals else Single (vals ! 0)) = Inr tgt"
proof -
  note c = init101_consistent(1) [OF a]
  from i have n: "nat i < length (index101 ds)" by (simp add: len101_def)
  with c have ny: "nat i < length (y101 ds)" by (simp add: consistent_index_def)
  have y: "py_getitem (y101 ds) i = Inr (y101 ds ! nat i)"
    using i ny by (intro py_getitem_in) simp_all
  note ap = annotation_path101_in_range [OF c init101_consistent(2) [OF a] i]
  from get101_Inr(2) [OF g] obtain target base where
    ct: "collect_targets E t ds i (target_type ds) [] = Inr target"
    and pk: "pack_target target = Inr base"
    and tt: "apply_optional (target_transform ds) base = Inr tgt"
    by blast
  from collect_targets_values [OF y ap init101_consistent(3) [OF a] ct]
  have m: "map (requested_value E t ds i) (target_type ds) = map Inr target" by simp
  from pack_target_Inr [OF pk] tt m show ?thesis by blast
qed

subsection \<open>Lookup: the target\<close>

text \<open>
  C8, as the code has it. The claim gives an ordered pair exactly when both target kinds
  are requested and the single requested value otherwise. Requesting the class id twice,
  \<^verbatim>\<open>target_type=["category", "category"]\<close>, passes the validation and requests one kind
  only, yet the lookup returns a pair: the code packs a tuple whenever the list of
  collected values has more than one entry.
\<close>

theorem repeated_kind_counterexample:
  "init101 demo_env [''data''] (StrList [''category'', ''category'']) None None False demo_world
     = (Inr (demo101 [''category'', ''category'']), demo_world) \<and>
   ''annotation'' \<notin> set (target_type (demo101 [''category'', ''category''])) \<and>
   get101 demo_env demo_tree (demo101 [''category'', ''category'']) 0
     = Inr (''f1'', Tuple [ClassId 0, ClassId 0]) \<and>
   get101 demo_env demo_tree (demo101 [''category'', ''category'']) 0
     \<noteq> Inr (''f1'', Single (ClassId 0))"
proof -
  have a: "init101 demo_env [''data''] (StrList [''category'', ''category'']) None None False demo_world
     = (Inr (demo101 [''category'', ''category'']), demo_world)"
    by (rule demo_init101_any) (simp add: verify_str_arg_def err_bind_def)
  have g: "get101 demo_env demo_tree (demo101 [''category'', ''category'']) 0
     = Inr (''f1'', Tuple [ClassId 0, ClassId 0])"
    by code_simp
  from a g show ?thesis by (simp add: demo101_def)
qed

text \<open>
  C8, amended. For every in-range index \<open>i\<close>, when the lookup of Caltech 101 returns, its
  target is made of the values of the requested entries, in the order of the request: the
  class id for \<open>category\<close>, and for \<open>annotation\<close> the contour loaded from the file
  \<open>annotation_%04d.mat\<close> resolved through the name-remap table. It is the tuple of these
  values when more than one entry is requested (so an ordered pair when both kinds are
  requested once each) and the single value when exactly one entry is requested; the
  optional target transform is applied to it. The lookup of Caltech 256 returns the class
  id alone (transformed likewise).
\<close>

theorem target_of_lookup:
  "(init101 E rt tt tr ttr dl w = (Inr ds, w') \<longrightarrow> 0 \<le> i \<longrightarrow> i < len101 ds \<longrightarrow>
      get101 E t ds i = Inr (img, tgt) \<longrightarrow>
        (\<exists>vals. map (requested_value E t ds i) (target_type ds) = map Inr vals \<and> vals \<noteq> [] \<and>
           apply_optional (target_transform ds)
             (if length vals > 1 then Tuple vals else Single (vals ! 0)) = Inr tgt) \<and>
        (target_type ds = [''category'', ''annotation''] \<longrightarrow>
           (\<exists>c. requested_value E t ds i ''annotation'' = Inr (ObjContour c) \<and>
              apply_optional (target_transform ds)
                (Tuple [ClassId (y101 ds ! nat i), ObjContour c]) = Inr tgt)) \<and>
        (target_type ds = [''annotation'', ''category''] \<longrightarrow>
           (\<exists>c. requested_value E t ds i ''annotation'' = Inr (ObjContour c) \<and>
              apply_optional (target_transform ds)
                (Tuple [ObjContour c, ClassId (y101 ds ! nat i)]) = Inr tgt)) \<and>
        (target_type ds = [''category''] \<longrightarrow>
           apply_optional (target_transform ds) (Single (ClassId (y101 ds ! nat i))) = Inr tgt) \<and>
        (target_type ds = [''annotation''] \<longrightarrow>
           (\<exists>c. requested_value E t ds i ''annotation'' = Inr (ObjContour c) \<and>
              apply_optional (target_transform ds) (Single (ObjContour c)) = Inr tgt))) \<and>
   (init256 E2 rt2 tr2 ttr2 dl2 w2 = (Inr ds2, w2') \<longrightarrow> 0 \<le> j \<longrightarrow> j < len256 ds2 \<longrightarrow>
      get256 E2 t2 ds2 j = Inr (img2, tgt2) \<longrightarrow>
        apply_optional (target_transform ds2) (y256 ds2 ! nat j) = Inr tgt2)"
proof (intro conjI impI)
  assume a: "init101 E rt tt tr ttr dl w = (Inr ds, w')" and i: "0 \<le> i" "i < len101 ds"
    and g: "get101 E t ds i = Inr (img, tgt)"
  from get101_target [OF a i g] obtain vals where
    m: "map (requested_value E t ds i) (target_type ds) = map Inr vals" and ne: "vals \<noteq> []"
    and tt: "apply_optional (target_transform ds)
             (if length vals > 1 then Tuple vals else Single (vals ! 0)) = Inr tgt"
    by blast
  from m have len: "length vals = length (target_type ds)"
    by (metis length_map)
  have cat: "requested_value E t ds i ''category'' = Inr (ClassId (y101 ds ! nat i))"
    by (simp add: requested_value_def)
  have ann: "\<exists>c. v = ObjContour c" if "requested_value E t ds i ''annotation'' = Inr v" for v
    using that by (auto simp: requested_value_def err_bind_Inr_iff)
  show "\<exists>vals. map (requested_value E t ds i) (target_type ds) = map Inr vals \<and> vals \<noteq> [] \<and>
           apply_optional (target_transform ds)
             (if length vals > 1 then Tuple vals else Single (vals ! 0)) = Inr tgt"
    using m ne tt by blast
  show "\<exists>c. requested_value E t ds i ''annotation'' = Inr (ObjContour c) \<and>
              apply_optional (target_transform ds)
                (Tuple [ClassId (y101 ds ! nat i), ObjContour c]) = Inr tgt"
    if "target_type ds = [''category'', ''annotation'']"
  proof -
    from m that obtain v1 v2 where v: "vals = [v1, v2]"
      "requested_value E t ds i ''category'' = Inr v1" "requested_value E t ds i ''annotation'' = Inr v2"
      by (auto simp: map_eq_Cons_conv)
    from ann [OF v(3)] obtain c where "v2 = ObjContour c" by blast
    with v cat tt show ?thesis by simp
  qed
  show "\<exists>c. requested_value E t ds i ''annotation'' = Inr (ObjContour c) \<and>
              apply_optional (target_transform ds)
                (Tuple [ObjContour c, ClassId (y101 ds ! nat i)]) = Inr tgt"
    if "target_type ds = [''annotation'', ''category'']"
  proof -
    from m that obtain v1 v2 where v: "vals = [v1, v2]"
      "requested_value E t ds i ''annotation'' = Inr v1" "requested_value E t ds i ''category'' = Inr v2"
      by (auto simp: map_eq_Cons_conv)
    from ann [OF v(2)] obtain c where "v1 = ObjContour c" by blast
    with v cat tt show ?thesis by simp
  qed
  show "apply_optional (target_transform ds) (Single (ClassId (y101 ds ! nat i))) = Inr tgt"
    if "target_type ds = [''category'']"
  proof -
    from m that obtain v1 where v: "vals = [v1]" "requested_value E t ds i ''category'' = Inr v1"
      by (auto simp: map_eq_Cons_conv)
    with cat tt show ?thesis by simp
  qed
  show "\<exists>c. requested_value E t ds i ''annotation'' = Inr (ObjContour c) \<and>
              apply_optional (target_transform ds) (Single (ObjContour c)) = Inr tgt"
    if "target_type ds = [''annotation'']"
  proof -
    from m that obtain v1 where v: "vals = [v1]" "requested_value E t ds i ''annotation'' = Inr v1"
      by (auto simp: map_eq_Cons_conv)
    from ann [OF v(2)] obtain c where "v1 = ObjContour c" by blast
    with v tt show ?thesis by simp
  qed
next
  assume a: "init256 E2 rt2 tr2 ttr2 dl2 w2 = (Inr ds2, w2')" and j: "0 \<le> j" "j < len256 ds2"
    and g: "get256 E2 t2 ds2 j = Inr (img2, tgt2)"
  note c = init256_consistent(1) [OF a]
  from get256_Inr [OF g] image_path256_in_range(5) [OF c j]
  show "apply_optional (target_transform ds2) (y256 ds2 ! nat j) = Inr tgt2" by auto
qed

theorem target_of_lookup_witness:
  "init101 demo_env [''data''] (StrList [''category'', ''annotation'']) None None False demo_world
     = (Inr (demo101 [''category'', ''annotation'']), demo_world) \<and>
   len101 (demo101 [''category'', ''annotation'']) = 5 \<and>
   get101 demo_env demo_tree (demo101 [''category'', ''annotation'']) 0
     = Inr (''f1'', Tuple [ClassId 0, ObjContour ''cf1'']) \<and>
   requested_value demo_env demo_tree (demo101 [''category'', ''annotation'']) 0 ''annotation''
     = Inr (ObjContour ''cf1'') \<and>
   init256 demo_env [''data''] None None False demo_world = (Inr demo256, demo_world) \<and>
   len256 demo256 = 5 \<and>
   get256 demo_env demo_tree demo256 2 = Inr (''q1'', 1) \<and>
   y256 demo256 ! nat 2 = 1"
proof -
  have l: "len101 (demo101 [''category'', ''annotation'']) = 5" "len256 demo256 = 5"
    by (simp_all add: len101_def len256_def demo101_def demo256_def)
  have g: "get101 demo_env demo_tree (demo101 [''category'', ''annotation'']) 0
     = Inr (''f1'', Tuple [ClassId 0, ObjContour ''cf1''])"
    by code_simp
  have g2: "get256 demo_env demo_tree demo256 2 = Inr (''q1'', 1)"
    by code_simp
  have tt: "target_type (demo101 [''category'', ''annotation'']) = [''category'', ''annotation'']"
    "target_transform (demo101 [''category'', ''annotation'']) = None"
    "target_transform demo256 = None"
    by (simp_all add: demo101_def demo256_def)
  note t = target_of_lookup [where E = demo_env and rt = "[''data'']"
      and tt = "StrList [''category'', ''annotation'']" and tr = None and ttr = None and dl = False
      and w = demo_world and ds = "demo101 [''category'', ''annotation'']" and w' = demo_world
      and i = 0 and t = demo_tree and img = "''f1''"
      and tgt = "Tuple [ClassId 0, ObjContour ''cf1'']"
      and ?E2.0 = demo_env and ?rt2.0 = "[''data'']" and ?tr2.0 = None and ?ttr2.0 = None
      and ?dl2.0 = False and ?w2.0 = demo_world and ?ds2.0 = demo256 and w2' = demo_world
      and j = 2 and ?t2.0 = demo_tree and ?img2.0 = "''q1''" and ?tgt2.0 = 1]
  from t demo_init101 l g tt
  have "\<exists>c. requested_value demo_env demo_tree (demo101 [''category'', ''annotation'']) 0 ''annotation''
        = Inr (ObjContour c) \<and>
      apply_optional None (Tuple [ClassId (y101 (demo101 [''category'', ''annotation'']) ! nat 0),
        ObjContour c]) = Inr (Tuple [ClassId 0, ObjContour ''cf1''])"
    by simp
  then have r: "requested_value demo_env demo_tree (demo101 [''category'', ''annotation'']) 0 ''annotation''
     = Inr (ObjContour ''cf1'')"
    by (auto simp: apply_optional_def)
  from t demo_init256 l g2 tt
  have "apply_optional None (y256 demo256 ! nat 2) = Inr (1::int)" by simp
  then have y: "y256 demo256 ! nat 2 = 1" by (simp add: apply_optional_def)
  from demo_init101 demo_init256 l g g2 r y show ?thesis by simp
qed

lemma scan101_target_type:
  "scan101 r tts tr ttr t =
     (case scan101 r tts0 tr ttr t of Inl e \<Rightarrow> Inl e | Inr ds \<Rightarrow> Inr (ds\<lparr>target_type := tts\<rparr>))"
  by (simp add: scan101_def err_bind_def split: sum.splits prod.splits)

lemma init101_steps:
  "init101 E rt tt tr ttr dl w =
     (case os_makedirs (rt @ [''caltech101'']) w of
        (Inl e, w1) \<Rightarrow> (Inl e, w1)
      | (Inr u, w1) \<Rightarrow>
          (case verify_target_types (case tt of Str s \<Rightarrow> [s] | StrList l \<Rightarrow> l) of
             Inl e \<Rightarrow> (Inl e, w1)
           | Inr tts \<Rightarrow>
               (case (if dl then download101 E (rt @ [''caltech101'']) else io_return ()) w1 of
                  (Inl e, w2) \<Rightarrow> (Inl e, w2)
                | (Inr u', w2) \<Rightarrow>
                    (if check_integrity101 (rt @ [''caltech101'']) (files w2)
                     then (scan101 (rt @ [''caltech101'']) tts tr ttr (files w2), w2)
                     else (Inl DatasetNotFound, w2)))))"
  by (simp add: init101_def io_bind_def io_lift_def split: prod.splits sum.splits)

lemma init101_empty_list:
  "init101 E rt (StrList []) tr ttr dl w =
     (case init101 E rt (Str ''category'') tr ttr dl w of
        (Inl e, w1) \<Rightarrow> (Inl e, w1)
      | (Inr ds0, w1) \<Rightarrow> (Inr (ds0\<lparr>target_type := []\<rparr>), w1))"
proof -
  have v: "verify_target_types [''category''] = Inr [''category'']"
    by (simp add: verify_str_arg_def err_bind_def)
  obtain r1 w1 where m: "os_makedirs (rt @ [''caltech101'']) w = (r1, w1)"
    by (cases "os_makedirs (rt @ [''caltech101'']) w")
  obtain r2 w2 where d: "(if dl then download101 E (rt @ [''caltech101'']) else io_return ()) w1 = (r2, w2)"
    by (cases "(if dl then download101 E (rt @ [''caltech101'']) else io_return ()) w1")
  show ?thesis
  proof (cases r1)
    case (Inl e)
    with m show ?thesis by (simp add: init101_steps)
  next
    case r1: (Inr u)
    show ?thesis
    proof (cases r2)
      case (Inl e)
      with m r1 d v show ?thesis by (simp add: init101_steps)
    next
      case r2: (Inr u')
      show ?thesis
      proof (cases "check_integrity101 (rt @ [''caltech101'']) (files w2)")
        case False
        with m r1 d r2 v show ?thesis by (simp add: init101_steps)
      next
        case True
        note sc = scan101_target_type [of "rt @ [''caltech101'']" "[]" tr ttr "files w2" "[''category'']"]
        from True m r1 d r2 v show ?thesis
          by (simp add: init101_steps sc split: sum.splits)
      qed
    qed
  qed
qed

lemma get101_empty_target_type:
  assumes "target_type ds = []"
  shows "get101 E t ds i =
     (if \<not> scipy_importable E then Inl ImportError
      else err_bind (image_path101 ds i) (\<lambda>p.
           err_bind (Image_open E t p) (\<lambda>img. Inl IndexError)))"
  using assms
  by (simp add: get101_def pack_target_def py_getitem_def err_bind_def split: sum.splits)

lemma the_count_count101:
  "the_count (count101 t r) c = entry_count t (r @ [''101_ObjectCategories'', c])"
  by (simp add: the_count_def count101_def entry_count_def err_bind_def split: sum.splits)

lemma the_count_count256:
  "the_count (count256 t r) c = jpg_name_count t (r @ [''256_ObjectCategories'', c])"
  by (simp add: the_count_def count256_def jpg_name_count_def err_bind_def split: sum.splits)

lemma the_count_count101_fun:
  "the_count (count101 t r) = (\<lambda>c. entry_count t (r @ [''101_ObjectCategories'', c]))"
  by (rule ext) (rule the_count_count101)

lemma the_count_count256_fun:
  "the_count (count256 t r) = (\<lambda>c. jpg_name_count t (r @ [''256_ObjectCategories'', c]))"
  by (rule ext) (rule the_count_count256)



lemma stray_makedirs:
  "makedirs stray_tree [''data'', ''caltech101''] = Inr stray_tree"
  "makedirs stray_tree [''data'', ''caltech256''] = Inr stray_tree"
  by code_simp+

lemma stray_scan101_parts:
  "listdir stray_tree [''data'', ''caltech101'', ''101_ObjectCategories'']
     = Inr [''BACKGROUND_Google'', ''a'']"
  "py_remove ''BACKGROUND_Google'' (sort [''BACKGROUND_Google'', ''a'']) = Inr [''a'']"
  "extend_index (count101 stray_tree [''data'', ''caltech101'']) (enumerate 0 [''a'']) ([], [])
     = Inr ([1, 2, 3], [0, 0, 0])"
  "map annotation_category [''a''] = [''a'']"
  "check_integrity101 [''data'', ''caltech101''] stray_tree"
  by code_simp+

lemma stray_scan101:
  "scan101 [''data'', ''caltech101''] tts None None stray_tree = Inr (stray101 tts)"
  unfolding scan101_def stray101_def
  by (simp only: append.simps stray_scan101_parts err_bind_def sum.case prod.case)

lemma stray_init101:
  assumes "verify_target_types (case tt of Str s \<Rightarrow> [s] | StrList l \<Rightarrow> l) = Inr tts"
  shows "init101 E [''data''] tt None None False stray_world = (Inr (stray101 tts), stray_world)"
  using assms
  by (simp add: init101_def io_bind_def os_makedirs_def stray_world_def stray_makedirs
        io_lift_def io_return_def stray_scan101_parts stray_scan101)

lemma stray_scan256_parts:
  "listdir stray_tree [''data'', ''caltech256'', ''256_ObjectCategories''] = Inr [''001.a'']"
  "sort [''001.a''] = [''001.a'']"
  "extend_index (count256 stray_tree [''data'', ''caltech256'']) (enumerate 0 [''001.a'']) ([], [])
     = Inr ([1, 2], [0, 0])"
  "check_integrity256 [''data'', ''caltech256''] stray_tree"
  by code_simp+

lemma stray_scan256:
  "scan256 [''data'', ''caltech256''] None None stray_tree = Inr stray256"
  unfolding scan256_def stray256_def
  by (simp only: append.simps stray_scan256_parts err_bind_def sum.case prod.case)

lemma stray_init256:
  "init256 E [''data''] None None False stray_world = (Inr stray256, stray_world)"
  by (simp add: init256_def io_bind_def os_makedirs_def stray_world_def stray_makedirs
        io_lift_def io_return_def stray_scan256_parts stray_scan256)

lemma stray_counts:
  "image_file_count stray_tree [''data'', ''caltech101'', ''101_ObjectCategories'', ''a''] = 1"
  "entry_count stray_tree [''data'', ''caltech101'', ''101_ObjectCategories'', ''a''] = 3"
  "image_file_count stray_tree [''data'', ''caltech256'', ''256_ObjectCategories'', ''001.a''] = 1"
  "jpg_name_count stray_tree [''data'', ''caltech256'', ''256_ObjectCategories'', ''001.a''] = 2"
  "resolve stray_tree [''data'', ''caltech101'', ''101_ObjectCategories'', ''a'']
     = Inr (Dir [(''image_0001.jpg'', File ''a1''), (''notes.txt'', File ''n''), (''sub'', Dir [])])"
  "resolve stray_tree [''data'', ''caltech256'', ''256_ObjectCategories'', ''001.a'']
     = Inr (Dir [(''001_0001.jpg'', File ''p1''), (''old.jpg'', Dir [])])"
  by code_simp+

lemma demo_entry_counts:
  "entry_count demo_tree [''data'', ''caltech101'', ''101_ObjectCategories'', ''Faces''] = 2"
  "entry_count demo_tree [''data'', ''caltech101'', ''101_ObjectCategories'', ''b''] = 3"
  "entry_count demo_tree [''data'', ''caltech256'', ''256_ObjectCategories'', ''001.ak47''] = 3"
  "entry_count demo_tree [''data'', ''caltech256'', ''256_ObjectCategories'', ''002.flag''] = 3"
  "jpg_name_count demo_tree [''data'', ''caltech256'', ''256_ObjectCategories'', ''001.ak47''] = 2"
  "jpg_name_count demo_tree [''data'', ''caltech256'', ''256_ObjectCategories'', ''002.flag''] = 3"
  "image_file_count demo_tree [''data'', ''caltech256'', ''256_ObjectCategories'', ''001.ak47''] = 2"
  "image_file_count demo_tree [''data'', ''caltech256'', ''256_ObjectCategories'', ''002.flag''] = 3"
  by code_simp+

subsection \<open>The size and the blocks of the sample index\<close>




text \<open>
  C5, as the specification states it, fails, whichever way the files of a category are
  counted for both variants. Counting image files: in the Caltech 101 dataset of the tree
  with stray entries the category \<open>a\<close>, at position 0, has one image file and owns three
  entries of the index, with the ordinals 1, 2, 3. Counting directory entries: in the
  Caltech 256 dataset of the small tree the category \<open>001.ak47\<close>, at position 0, holds
  three files and owns two entries.
\<close>

theorem blocks_of_stray_entries_counterexample:
  "init101 demo_env [''data''] (Str ''category'') None None False stray_world
     = (Inr (stray101 [''category'']), stray_world) \<and>
   categories101 (stray101 [''category'']) ! 0 = ''a'' \<and>
   image_file_count stray_tree [''data'', ''caltech101'', ''101_ObjectCategories'', ''a''] = 1 \<and>
   length (filter (\<lambda>v. v = 0) (y101 (stray101 [''category'']))) = 3 \<and>
   index101 (stray101 [''category'']) = [1, 2, 3] \<and>
   \<not> index_invariant
       (\<lambda>c. image_file_count stray_tree [''data'', ''caltech101'', ''101_ObjectCategories'', c])
       (categories101 (stray101 [''category''])) (index101 (stray101 [''category'']))
       (y101 (stray101 [''category''])) \<and>
   init256 demo_env [''data''] None None False demo_world = (Inr demo256, demo_world) \<and>
   categories256 demo256 ! 0 = ''001.ak47'' \<and>
   entry_count demo_tree [''data'', ''caltech256'', ''256_ObjectCategories'', ''001.ak47''] = 3 \<and>
   length (filter (\<lambda>v. v = 0) (y256 demo256)) = 2 \<and>
   \<not> index_invariant
       (\<lambda>c. entry_count demo_tree [''data'', ''caltech256'', ''256_ObjectCategories'', c])
       (categories256 demo256) (index256 demo256) (y256 demo256)"
proof -
  have a: "init101 demo_env [''data''] (Str ''category'') None None False stray_world
     = (Inr (stray101 [''category'']), stray_world)"
    by (rule stray_init101) (simp add: verify_str_arg_def err_bind_def)
  have b: "categories101 (stray101 [''category'']) ! 0 = ''a''"
    "length (filter (\<lambda>v. v = 0) (y101 (stray101 [''category'']))) = 3"
    "index101 (stray101 [''category'']) = [1, 2, 3]"
    "categories256 demo256 ! 0 = ''001.ak47''"
    "length (filter (\<lambda>v. v = 0) (y256 demo256)) = 2"
    by (simp_all add: stray101_def demo256_def)
  have c: "\<not> index_invariant
       (\<lambda>c. image_file_count stray_tree [''data'', ''caltech101'', ''101_ObjectCategories'', c])
       (categories101 (stray101 [''category''])) (index101 (stray101 [''category'']))
       (y101 (stray101 [''category'']))"
    by (simp add: index_invariant_def stray101_def stray_counts)
  have d: "\<not> index_invariant
       (\<lambda>c. entry_count demo_tree [''data'', ''caltech256'', ''256_ObjectCategories'', c])
       (categories256 demo256) (index256 demo256) (y256 demo256)"
    by (simp add: index_invariant_def demo256_def demo_entry_counts)
  from a b c d demo_init256 show ?thesis by (simp add: stray_counts demo_entry_counts)
qed

text \<open>
  C5, amended. For every constructed dataset, of either variant, the sample index satisfies
  the invariant of the specification over the sorted category list, with the count the
  constructor takes of a category's directory: the number \<open>n\<close> of all its entries in
  Caltech 101, the number \<open>n\<close> of its entries whose name ends in \<open>.jpg\<close> in Caltech 256.
  The category at position \<open>k\<close> owns exactly \<open>n\<close> consecutive entries whose category id
  is \<open>k\<close> and whose ordinals run from 1 to \<open>n\<close>. Consequently every category id is at
  least 0 and below the number of categories, and the ids never decrease along the index.
\<close>

theorem index_blocks:
  "(init101 E rt tt tr ttr dl w = (Inr ds, w') \<longrightarrow>
      sorted (categories101 ds) \<and>
      index_invariant (the_count (count101 (files w') (root ds)))
        (categories101 ds) (index101 ds) (y101 ds) \<and>
      index_invariant (\<lambda>c. entry_count (files w') (root ds @ [''101_ObjectCategories'', c]))
        (categories101 ds) (index101 ds) (y101 ds) \<and>
      (\<forall>i < length (y101 ds). 0 \<le> y101 ds ! i \<and> y101 ds ! i < int (length (categories101 ds))) \<and>
      (\<forall>i j. i \<le> j \<and> j < length (y101 ds) \<longrightarrow> y101 ds ! i \<le> y101 ds ! j)) \<and>
   (init256 E2 rt2 tr2 ttr2 dl2 w2 = (Inr ds2, w2') \<longrightarrow>
      sorted (categories256 ds2) \<and>
      index_invariant (the_count (count256 (files w2') (root ds2)))
        (categories256 ds2) (index256 ds2) (y256 ds2) \<and>
      index_invariant (\<lambda>c. jpg_name_count (files w2') (root ds2 @ [''256_ObjectCategories'', c]))
        (categories256 ds2) (index256 ds2) (y256 ds2) \<and>
      (\<forall>i < length (y256 ds2). 0 \<le> y256 ds2 ! i \<and> y256 ds2 ! i < int (length (categories256 ds2))) \<and>
      (\<forall>i j. i \<le> j \<and> j < length (y256 ds2) \<longrightarrow> y256 ds2 ! i \<le> y256 ds2 ! j))"
proof (intro conjI impI)
  assume a: "init101 E rt tt tr ttr dl w = (Inr ds, w')"
  note inv = extend_index_invariant(1) [OF init101_index [OF a]]
  show "sorted (categories101 ds)" by (rule init101_categories_sorted [OF a])
  show "index_invariant (the_count (count101 (files w') (root ds)))
        (categories101 ds) (index101 ds) (y101 ds)" by (rule inv)
  show "index_invariant (\<lambda>c. entry_count (files w') (root ds @ [''101_ObjectCategories'', c]))
        (categories101 ds) (index101 ds) (y101 ds)"
    by (rule inv [unfolded the_count_count101_fun])
  show "\<forall>i < length (y101 ds). 0 \<le> y101 ds ! i \<and> y101 ds ! i < int (length (categories101 ds))"
    by (rule index_invariant_consequences(1) [OF inv])
  show "\<forall>i j. i \<le> j \<and> j < length (y101 ds) \<longrightarrow> y101 ds ! i \<le> y101 ds ! j"
    by (rule index_invariant_consequences(2) [OF inv])
next
  assume a: "init256 E2 rt2 tr2 ttr2 dl2 w2 = (Inr ds2, w2')"
  note inv = extend_index_invariant(1) [OF init256_index [OF a]]
  show "sorted (categories256 ds2)" by (rule init256_categories_sorted [OF a])
  show "index_invariant (the_count (count256 (files w2') (root ds2)))
        (categories256 ds2) (index256 ds2) (y256 ds2)" by (rule inv)
  show "index_invariant (\<lambda>c. jpg_name_count (files w2') (root ds2 @ [''256_ObjectCategories'', c]))
        (categories256 ds2) (index256 ds2) (y256 ds2)"
    by (rule inv [unfolded the_count_count256_fun])
  show "\<forall>i < length (y256 ds2). 0 \<le> y256 ds2 ! i \<and> y256 ds2 ! i < int (length (categories256 ds2))"
    by (rule index_invariant_consequences(1) [OF inv])
  show "\<forall>i j. i \<le> j \<and> j < length (y256 ds2) \<longrightarrow> y256 ds2 ! i \<le> y256 ds2 ! j"
    by (rule index_invariant_consequences(2) [OF inv])
qed

theorem index_blocks_witness:
  "init101 demo_env [''data''] (StrList [''category'', ''annotation'']) None None False demo_world
     = (Inr (demo101 [''category'', ''annotation'']), demo_world) \<and>
   index_invariant (\<lambda>c. entry_count demo_tree [''data'', ''caltech101'', ''101_ObjectCategories'', c])
     [''Faces'', ''b''] [1, 2, 1, 2, 3] [0, 0, 1, 1, 1] \<and>
   entry_count demo_tree [''data'', ''caltech101'', ''101_ObjectCategories'', ''Faces''] = 2 \<and>
   entry_count demo_tree [''data'', ''caltech101'', ''101_ObjectCategories'', ''b''] = 3 \<and>
   init256 demo_env [''data''] None None False demo_world = (Inr demo256, demo_world) \<and>
   index_invariant (\<lambda>c. jpg_name_count demo_tree [''data'', ''caltech256'', ''256_ObjectCategories'', c])
     [''001.ak47'', ''002.flag''] [1, 2, 1, 2, 3] [0, 0, 1, 1, 1] \<and>
   jpg_name_count demo_tree [''data'', ''caltech256'', ''256_ObjectCategories'', ''001.ak47''] = 2 \<and>
   jpg_name_count demo_tree [''data'', ''caltech256'', ''256_ObjectCategories'', ''002.flag''] = 3"
proof -
  note t = index_blocks [of demo_env "[''data'']" "StrList [''category'', ''annotation'']"
      None None False demo_world "demo101 [''category'', ''annotation'']" demo_world
      demo_env "[''data'']" None None False demo_world demo256 demo_world]
  from t demo_init101 demo_init256
  have "index_invariant (\<lambda>c. entry_count (files demo_world)
          (root (demo101 [''category'', ''annotation'']) @ [''101_ObjectCategories'', c]))
      (categories101 (demo101 [''category'', ''annotation'']))
      (index101 (demo101 [''category'', ''annotation''])) (y101 (demo101 [''category'', ''annotation'']))"
    and "index_invariant (\<lambda>c. jpg_name_count (files demo_world)
          (root demo256 @ [''256_ObjectCategories'', c]))
      (categories256 demo256) (index256 demo256) (y256 demo256)"
    by blast+
  then have "index_invariant (\<lambda>c. entry_count demo_tree [''data'', ''caltech101'', ''101_ObjectCategories'', c])
     [''Faces'', ''b''] [1, 2, 1, 2, 3] [0, 0, 1, 1, 1]"
    and "index_invariant (\<lambda>c. jpg_name_count demo_tree [''data'', ''caltech256'', ''256_ObjectCategories'', c])
     [''001.ak47'', ''002.flag''] [1, 2, 1, 2, 3] [0, 0, 1, 1, 1]"
    by (simp_all add: demo_world_def demo101_def demo256_def)
  with demo_init101 demo_init256 show ?thesis by (simp add: demo_entry_counts)
qed

lemma get101_in_range:
  assumes c: "consistent_index (categories101 ds) (index101 ds) (y101 ds)"
    and i: "0 \<le> i" "i < len101 ds"
  shows "get101 E t ds i =
     (if \<not> scipy_importable E then Inl ImportError
      else
        err_bind (Image_open E t (root ds @ [''101_ObjectCategories'',
            categories101 ds ! nat (y101 ds ! nat i),
            ''image_'' @ format_0d 4 (index101 ds ! nat i) @ ''.jpg''])) (\<lambda>img.
        err_bind (collect_targets E t ds i (target_type ds) []) (\<lambda>target.
        err_bind (pack_target target) (\<lambda>tgt.
        err_bind (apply_optional (transform ds) img) (\<lambda>img'.
        err_bind (apply_optional (target_transform ds) tgt) (\<lambda>tgt'.
        Inr (img', tgt')))))))"
  unfolding get101_def image_path101_in_range(1) [OF c i]
  by (simp add: err_bind_def)

lemma get256_in_range:
  assumes c: "consistent_index (categories256 ds) (index256 ds) (y256 ds)"
    and i: "0 \<le> i" "i < len256 ds"
  shows "get256 E t ds i =
     err_bind (Image_open E t (root ds @ [''256_ObjectCategories'',
         categories256 ds ! nat (y256 ds ! nat i),
         format_0d 3 (y256 ds ! nat i + 1) @ ''_'' @ format_0d 4 (index256 ds ! nat i) @ ''.jpg''])) (\<lambda>img.
     err_bind (apply_optional (transform ds) img) (\<lambda>img'.
     err_bind (apply_optional (target_transform ds) (y256 ds ! nat i)) (\<lambda>target'.
     Inr (img', target'))))"
  unfolding get256_def image_path256_in_range(1) [OF c i] image_path256_in_range(5) [OF c i]
  by (simp add: err_bind_def)

lemma err_bind_Inl: "m = Inl e \<Longrightarrow> err_bind m f = Inl e"
  by (simp add: err_bind_def)

subsection \<open>Lookup: the file name of the image\<close>

text \<open>
  C6. For every in-range index \<open>i\<close> of a constructed dataset, the lookup opens the image
  at the path that ends in the variant's zero-padded file name: \<open>image_\<close>, the ordinal in
  at least four decimal digits, \<open>.jpg\<close> in Caltech 101; the category number (position
  plus one) in at least three digits, an underscore, the ordinal in at least four digits,
  \<open>.jpg\<close> in Caltech 256. The digit strings are all digits, denote the number they
  format, and have exactly the width when the number fits it. The lookup is the opening
  of the file at that path followed by the rest of the lookup (in Caltech 101 after the
  import of the annotation reader): when the file at that path cannot be opened the
  lookup fails with the error of opening it, and whenever the lookup returns an image, it
  is the file opened at that path (then transformed).
\<close>

theorem filename_pattern:
  "(init101 E rt tt tr ttr dl w = (Inr ds, w') \<longrightarrow> 0 \<le> i \<longrightarrow> i < len101 ds \<longrightarrow>
      image_path101 ds i = Inr (root ds @ [''101_ObjectCategories'',
          categories101 ds ! nat (y101 ds ! nat i),
          ''image_'' @ format_0d 4 (index101 ds ! nat i) @ ''.jpg'']) \<and>
      1 \<le> index101 ds ! nat i \<and>
      list_all is_digit (format_0d 4 (index101 ds ! nat i)) \<and>
      decimal_value (format_0d 4 (index101 ds ! nat i)) = nat (index101 ds ! nat i) \<and>
      4 \<le> length (format_0d 4 (index101 ds ! nat i)) \<and>
      (index101 ds ! nat i < 10000 \<longrightarrow> length (format_0d 4 (index101 ds ! nat i)) = 4) \<and>
      get101 E t ds i =
        (if \<not> scipy_importable E then Inl ImportError
         else
           err_bind (Image_open E t (root ds @ [''101_ObjectCategories'',
               categories101 ds ! nat (y101 ds ! nat i),
               ''image_'' @ format_0d 4 (index101 ds ! nat i) @ ''.jpg''])) (\<lambda>img.
           err_bind (collect_targets E t ds i (target_type ds) []) (\<lambda>target.
           err_bind (pack_target target) (\<lambda>tgt.
           err_bind (apply_optional (transform ds) img) (\<lambda>img'.
           err_bind (apply_optional (target_transform ds) tgt) (\<lambda>tgt'.
           Inr (img', tgt'))))))) \<and>
      (\<forall>e. scipy_importable E \<longrightarrow>
         Image_open E t (root ds @ [''101_ObjectCategories'',
              categories101 ds ! nat (y101 ds ! nat i),
              ''image_'' @ format_0d 4 (index101 ds ! nat i) @ ''.jpg'']) = Inl e \<longrightarrow>
         get101 E t ds i = Inl e) \<and>
      (\<forall>img tgt. get101 E t ds i = Inr (img, tgt) \<longrightarrow>
         (\<exists>img0. Image_open E t (root ds @ [''101_ObjectCategories'',
              categories101 ds ! nat (y101 ds ! nat i),
              ''image_'' @ format_0d 4 (index101 ds ! nat i) @ ''.jpg'']) = Inr img0 \<and>
            apply_optional (transform ds) img0 = Inr img))) \<and>
   (init256 E2 rt2 tr2 ttr2 dl2 w2 = (Inr ds2, w2') \<longrightarrow> 0 \<le> j \<longrightarrow> j < len256 ds2 \<longrightarrow>
      image_path256 ds2 j = Inr (root ds2 @ [''256_ObjectCategories'',
          categories256 ds2 ! nat (y256 ds2 ! nat j),
          format_0d 3 (y256 ds2 ! nat j + 1) @ ''_'' @ format_0d 4 (index256 ds2 ! nat j) @ ''.jpg'']) \<and>
      1 \<le> y256 ds2 ! nat j + 1 \<and> 1 \<le> index256 ds2 ! nat j \<and>
      list_all is_digit (format_0d 3 (y256 ds2 ! nat j + 1)) \<and>
      list_all is_digit (format_0d 4 (index256 ds2 ! nat j)) \<and>
      decimal_value (format_0d 3 (y256 ds2 ! nat j + 1)) = nat (y256 ds2 ! nat j) + 1 \<and>
      decimal_value (format_0d 4 (index256 ds2 ! nat j)) = nat (index256 ds2 ! nat j) \<and>
      3 \<le> length (format_0d 3 (y256 ds2 ! nat j + 1)) \<and>
      4 \<le> length (format_0d 4 (index256 ds2 ! nat j)) \<and>
      (y256 ds2 ! nat j + 1 < 1000 \<longrightarrow> length (format_0d 3 (y256 ds2 ! nat j + 1)) = 3) \<and>
      (index256 ds2 ! nat j < 10000 \<longrightarrow> length (format_0d 4 (index256 ds2 ! nat j)) = 4) \<and>
      get256 E2 t2 ds2 j =
        err_bind (Image_open E2 t2 (root ds2 @ [''256_ObjectCategories'',
            categories256 ds2 ! nat (y256 ds2 ! nat j),
            format_0d 3 (y256 ds2 ! nat j + 1) @ ''_'' @ format_0d 4 (index256 ds2 ! nat j) @ ''.jpg''])) (\<lambda>img.
        err_bind (apply_optional (transform ds2) img) (\<lambda>img'.
        err_bind (apply_optional (target_transform ds2) (y256 ds2 ! nat j)) (\<lambda>target'.
        Inr (img', target')))) \<and>
      (\<forall>e. Image_open E2 t2 (root ds2 @ [''256_ObjectCategories'',
              categories256 ds2 ! nat (y256 ds2 ! nat j),
              format_0d 3 (y256 ds2 ! nat j + 1) @ ''_'' @ format_0d 4 (index256 ds2 ! nat j) @ ''.jpg''])
              = Inl e \<longrightarrow>
         get256 E2 t2 ds2 j = Inl e) \<and>
      (\<forall>img tgt. get256 E2 t2 ds2 j = Inr (img, tgt) \<longrightarrow>
         (\<exists>img0. Image_open E2 t2 (root ds2 @ [''256_ObjectCategories'',
              categories256 ds2 ! nat (y256 ds2 ! nat j),
              format_0d 3 (y256 ds2 ! nat j + 1) @ ''_'' @ format_0d 4 (index256 ds2 ! nat j) @ ''.jpg''])
              = Inr img0 \<and>
            apply_optional (transform ds2) img0 = Inr img)))"
proof (intro conjI impI allI)
  assume a: "init101 E rt tt tr ttr dl w = (Inr ds, w')" and i: "0 \<le> i" "i < len101 ds"
  note c = init101_consistent(1) [OF a]
  note p = image_path101_in_range [OF c i]
  note g = get101_in_range [OF c i, of E t]
  show "image_path101 ds i = Inr (root ds @ [''101_ObjectCategories'',
          categories101 ds ! nat (y101 ds ! nat i),
          ''image_'' @ format_0d 4 (index101 ds ! nat i) @ ''.jpg''])" by (rule p(1))
  show "1 \<le> index101 ds ! nat i" by (rule p(2))
  from p(2) have k: "0 \<le> index101 ds ! nat i" by simp
  show "list_all is_digit (format_0d 4 (index101 ds ! nat i))" by (rule format_0d_digits [OF k])
  show "decimal_value (format_0d 4 (index101 ds ! nat i)) = nat (index101 ds ! nat i)"
    by (rule format_0d_value [OF k])
  show "4 \<le> length (format_0d 4 (index101 ds ! nat i))" by (rule format_0d_min_width [OF k])
  show "length (format_0d 4 (index101 ds ! nat i)) = 4" if "index101 ds ! nat i < 10000"
    using k that by (rule format_0d_4_small)
  show "get101 E t ds i =
        (if \<not> scipy_importable E then Inl ImportError
         else
           err_bind (Image_open E t (root ds @ [''101_ObjectCategories'',
               categories101 ds ! nat (y101 ds ! nat i),
               ''image_'' @ format_0d 4 (index101 ds ! nat i) @ ''.jpg''])) (\<lambda>img.
           err_bind (collect_targets E t ds i (target_type ds) []) (\<lambda>target.
           err_bind (pack_target target) (\<lambda>tgt.
           err_bind (apply_optional (transform ds) img) (\<lambda>img'.
           err_bind (apply_optional (target_transform ds) tgt) (\<lambda>tgt'.
           Inr (img', tgt')))))))" by (rule g)
  show "get101 E t ds i = Inl e"
    if "scipy_importable E" and "Image_open E t (root ds @ [''101_ObjectCategories'',
              categories101 ds ! nat (y101 ds ! nat i),
              ''image_'' @ format_0d 4 (index101 ds ! nat i) @ ''.jpg'']) = Inl e" for e
    unfolding g using that by (simp add: err_bind_def)
  show "\<exists>img0. Image_open E t (root ds @ [''101_ObjectCategories'',
              categories101 ds ! nat (y101 ds ! nat i),
              ''image_'' @ format_0d 4 (index101 ds ! nat i) @ ''.jpg'']) = Inr img0 \<and>
            apply_optional (transform ds) img0 = Inr img"
    if "get101 E t ds i = Inr (img, tgt)" for img tgt
    using get101_Inr(2) [OF that] p(1) by auto
next
  assume a: "init256 E2 rt2 tr2 ttr2 dl2 w2 = (Inr ds2, w2')" and j: "0 \<le> j" "j < len256 ds2"
  note c = init256_consistent(1) [OF a]
  note p = image_path256_in_range [OF c j]
  note g = get256_in_range [OF c j, of E2 t2]
  show "image_path256 ds2 j = Inr (root ds2 @ [''256_ObjectCategories'',
          categories256 ds2 ! nat (y256 ds2 ! nat j),
          format_0d 3 (y256 ds2 ! nat j + 1) @ ''_'' @ format_0d 4 (index256 ds2 ! nat j) @ ''.jpg''])"
    by (rule p(1))
  show "1 \<le> index256 ds2 ! nat j" by (rule p(2))
  from p(3) show y1: "1 \<le> y256 ds2 ! nat j + 1" by simp
  from p(2) have k: "0 \<le> index256 ds2 ! nat j" by simp
  from p(3) have y: "0 \<le> y256 ds2 ! nat j + 1" by simp
  show "list_all is_digit (format_0d 3 (y256 ds2 ! nat j + 1))" by (rule format_0d_digits [OF y])
  show "list_all is_digit (format_0d 4 (index256 ds2 ! nat j))" by (rule format_0d_digits [OF k])
  show "decimal_value (format_0d 3 (y256 ds2 ! nat j + 1)) = nat (y256 ds2 ! nat j) + 1"
    using format_0d_value [OF y, of 3] p(3) by (simp add: nat_add_distrib)
  show "decimal_value (format_0d 4 (index256 ds2 ! nat j)) = nat (index256 ds2 ! nat j)"
    by (rule format_0d_value [OF k])
  show "3 \<le> length (format_0d 3 (y256 ds2 ! nat j + 1))" by (rule format_0d_min_width [OF y])
  show "4 \<le> length (format_0d 4 (index256 ds2 ! nat j))" by (rule format_0d_min_width [OF k])
  show "length (format_0d 3 (y256 ds2 ! nat j + 1)) = 3" if "y256 ds2 ! nat j + 1 < 1000"
    using y that by (rule format_0d_3_small)
  show "length (format_0d 4 (index256 ds2 ! nat j)) = 4" if "index256 ds2 ! nat j < 10000"
    using k that by (rule format_0d_4_small)
  show "get256 E2 t2 ds2 j =
        err_bind (Image_open E2 t2 (root ds2 @ [''256_ObjectCategories'',
            categories256 ds2 ! nat (y256 ds2 ! nat j),
            format_0d 3 (y256 ds2 ! nat j + 1) @ ''_'' @ format_0d 4 (index256 ds2 ! nat j) @ ''.jpg''])) (\<lambda>img.
        err_bind (apply_optional (transform ds2) img) (\<lambda>img'.
        err_bind (apply_optional (target_transform ds2) (y256 ds2 ! nat j)) (\<lambda>target'.
        Inr (img', target'))))" by (rule g)
  show "get256 E2 t2 ds2 j = Inl e"
    if "Image_open E2 t2 (root ds2 @ [''256_ObjectCategories'',
              categories256 ds2 ! nat (y256 ds2 ! nat j),
              format_0d 3 (y256 ds2 ! nat j + 1) @ ''_'' @ format_0d 4 (index256 ds2 ! nat j) @ ''.jpg''])
              = Inl e" for e
    unfolding g using that by (simp add: err_bind_def)
  show "\<exists>img0. Image_open E2 t2 (root ds2 @ [''256_ObjectCategories'',
              categories256 ds2 ! nat (y256 ds2 ! nat j),
              format_0d 3 (y256 ds2 ! nat j + 1) @ ''_'' @ format_0d 4 (index256 ds2 ! nat j) @ ''.jpg''])
              = Inr img0 \<and>
            apply_optional (transform ds2) img0 = Inr img"
    if "get256 E2 t2 ds2 j = Inr (img, tgt)" for img tgt
    using get256_Inr [OF that] p(1) by auto
qed

lemma demo_lookups:
  "get101 demo_env demo_tree (demo101 [''category'', ''annotation'']) 3
     = Inr (''b2'', Tuple [ClassId 1, ObjContour ''cb2''])"
  "get256 demo_env demo_tree demo256 4 = Inr (''q3'', 1)"
  "Image_open demo_env demo_tree
     [''data'', ''caltech101'', ''101_ObjectCategories'', ''b'', ''image_0002.jpg''] = Inr ''b2''"
  "Image_open demo_env demo_tree
     [''data'', ''caltech256'', ''256_ObjectCategories'', ''002.flag'', ''002_0003.jpg''] = Inr ''q3''"
  "Image_open demo_env stray_tree
     [''data'', ''caltech101'', ''101_ObjectCategories'', ''a'', ''image_0002.jpg'']
     = Inl FileNotFoundError"
  "Image_open demo_env stray_tree
     [''data'', ''caltech256'', ''256_ObjectCategories'', ''001.a'', ''001_0002.jpg'']
     = Inl FileNotFoundError"
  by code_simp+

theorem filename_pattern_witness:
  "init101 demo_env [''data''] (StrList [''category'', ''annotation'']) None None False demo_world
     = (Inr (demo101 [''category'', ''annotation'']), demo_world) \<and>
   len101 (demo101 [''category'', ''annotation'']) = 5 \<and>
   image_path101 (demo101 [''category'', ''annotation'']) 3
     = Inr [''data'', ''caltech101'', ''101_ObjectCategories'', ''b'', ''image_0002.jpg''] \<and>
   Image_open demo_env demo_tree
     [''data'', ''caltech101'', ''101_ObjectCategories'', ''b'', ''image_0002.jpg''] = Inr ''b2'' \<and>
   get101 demo_env demo_tree (demo101 [''category'', ''annotation'']) 3
     = Inr (''b2'', Tuple [ClassId 1, ObjContour ''cb2'']) \<and>
   init256 demo_env [''data''] None None False demo_world = (Inr demo256, demo_world) \<and>
   len256 demo256 = 5 \<and>
   image_path256 demo256 4
     = Inr [''data'', ''caltech256'', ''256_ObjectCategories'', ''002.flag'', ''002_0003.jpg''] \<and>
   Image_open demo_env demo_tree
     [''data'', ''caltech256'', ''256_ObjectCategories'', ''002.flag'', ''002_0003.jpg''] = Inr ''q3'' \<and>
   get256 demo_env demo_tree demo256 4 = Inr (''q3'', 1) \<and>
   init101 demo_env [''data''] (Str ''category'') None None False stray_world
     = (Inr (stray101 [''category'']), stray_world) \<and>
   len101 (stray101 [''category'']) = 3 \<and>
   Image_open demo_env stray_tree
     [''data'', ''caltech101'', ''101_ObjectCategories'', ''a'', ''image_0002.jpg'']
     = Inl FileNotFoundError \<and>
   get101 demo_env stray_tree (stray101 [''category'']) 1 = Inl FileNotFoundError \<and>
   init256 demo_env [''data''] None None False stray_world = (Inr stray256, stray_world) \<and>
   len256 stray256 = 2 \<and>
   Image_open demo_env stray_tree
     [''data'', ''caltech256'', ''256_ObjectCategories'', ''001.a'', ''001_0002.jpg'']
     = Inl FileNotFoundError \<and>
   get256 demo_env stray_tree stray256 1 = Inl FileNotFoundError"
proof -
  have l: "len101 (demo101 [''category'', ''annotation'']) = 5" "len256 demo256 = 5"
    "len101 (stray101 [''category'']) = 3" "len256 stray256 = 2"
    by (simp_all add: len101_def len256_def demo101_def demo256_def stray101_def stray256_def)
  have sa: "init101 demo_env [''data''] (Str ''category'') None None False stray_world
     = (Inr (stray101 [''category'']), stray_world)"
    by (rule stray_init101) (simp add: verify_str_arg_def err_bind_def)
  note sb = stray_init256 [of demo_env]
  have sc: "scipy_importable demo_env" by (simp add: demo_env_def)
  have r: "(0::int) \<le> 1" "1 < len101 (stray101 [''category''])" "1 < len256 stray256"
    by (simp_all add: l)
  note t = filename_pattern [of demo_env "[''data'']" "StrList [''category'', ''annotation'']"
      None None False demo_world "demo101 [''category'', ''annotation'']" demo_world 3 demo_tree
      demo_env "[''data'']" None None False demo_world demo256 demo_world 4 demo_tree]
  note s = filename_pattern [of demo_env "[''data'']" "Str ''category''"
      None None False stray_world "stray101 [''category'']" stray_world 1 stray_tree
      demo_env "[''data'']" None None False stray_world stray256 stray_world 1 stray_tree]
  from t demo_init101 demo_init256 l
  have "image_path101 (demo101 [''category'', ''annotation'']) 3
      = Inr (root (demo101 [''category'', ''annotation'']) @ [''101_ObjectCategories'',
          categories101 (demo101 [''category'', ''annotation''])
            ! nat (y101 (demo101 [''category'', ''annotation'']) ! nat 3),
          ''image_'' @ format_0d 4 (index101 (demo101 [''category'', ''annotation'']) ! nat 3) @ ''.jpg''])"
    and "image_path256 demo256 4 = Inr (root demo256 @ [''256_ObjectCategories'',
          categories256 demo256 ! nat (y256 demo256 ! nat 4),
          format_0d 3 (y256 demo256 ! nat 4 + 1) @ ''_'' @ format_0d 4 (index256 demo256 ! nat 4) @ ''.jpg''])"
    by simp_all
  then have p: "image_path101 (demo101 [''category'', ''annotation'']) 3
     = Inr [''data'', ''caltech101'', ''101_ObjectCategories'', ''b'', ''image_0002.jpg'']"
    "image_path256 demo256 4
     = Inr [''data'', ''caltech256'', ''256_ObjectCategories'', ''002.flag'', ''002_0003.jpg'']"
    by (simp_all add: demo101_def demo256_def demo_formats)
  have s1: "\<forall>e. scipy_importable demo_env \<longrightarrow>
         Image_open demo_env stray_tree (root (stray101 [''category'']) @ [''101_ObjectCategories'',
              categories101 (stray101 [''category'']) ! nat (y101 (stray101 [''category'']) ! nat 1),
              ''image_'' @ format_0d 4 (index101 (stray101 [''category'']) ! nat 1) @ ''.jpg'']) = Inl e \<longrightarrow>
         get101 demo_env stray_tree (stray101 [''category'']) 1 = Inl e"
    using s sa r by blast
  have s2: "\<forall>e. Image_open demo_env stray_tree (root stray256 @ [''256_ObjectCategories'',
              categories256 stray256 ! nat (y256 stray256 ! nat 1),
              format_0d 3 (y256 stray256 ! nat 1 + 1) @ ''_'' @ format_0d 4 (index256 stray256 ! nat 1) @ ''.jpg''])
              = Inl e \<longrightarrow>
         get256 demo_env stray_tree stray256 1 = Inl e"
    using s sb r by blast
  have f1: "get101 demo_env stray_tree (stray101 [''category'']) 1 = Inl FileNotFoundError"
    using s1 [rule_format, OF sc, of FileNotFoundError] demo_lookups(5)
    by (simp add: stray101_def demo_formats)
  have f2: "get256 demo_env stray_tree stray256 1 = Inl FileNotFoundError"
    using s2 [rule_format, of FileNotFoundError] demo_lookups(6)
    by (simp add: stray256_def demo_formats)
  from demo_init101 demo_init256 l p demo_lookups sa sb f1 f2 show ?thesis by simp
qed

lemma collect_targets_annotation_fails:
  assumes y: "py_getitem (y101 ds) i = Inr yi"
    and ap: "annotation_path101 ds i = Inr p"
    and lm: "loadmat E t p = Inl e"
  shows "''annotation'' \<in> set ks \<Longrightarrow> collect_targets E t ds i ks target = Inl e"
proof (induction ks arbitrary: target)
  case Nil
  then show ?case by simp
next
  case (Cons k ks)
  show ?case
  proof (cases "k = ''annotation''")
    case True
    then show ?thesis by (simp add: ap lm err_bind_def)
  next
    case False
    with Cons.prems have "''annotation'' \<in> set ks" by simp
    with Cons.IH False y show ?thesis by (simp add: err_bind_def)
  qed
qed

lemma requested_annotation_Inr:
  assumes "requested_value E t ds i ''annotation'' = Inr v"
  shows "\<exists>data a. loadmat E t (root ds @ [''Annotations'',
             annotation_category (categories101 ds ! nat (y101 ds ! nat i)),
             ''annotation_'' @ format_0d 4 (index101 ds ! nat i) @ ''.mat'']) = Inr data \<and>
           dict_getitem data ''obj_contour'' = Inr a \<and> v = ObjContour a"
  using assms by (auto simp: requested_value_def err_bind_Inr_iff)

lemma map_Inr_member:
  "map f ks = map Inr vs \<Longrightarrow> k \<in> set ks \<Longrightarrow> \<exists>v \<in> set vs. f k = Inr v"
  by (induction ks arbitrary: vs) auto

lemma faces_parts:
  "makedirs faces_tree [''data'', ''caltech101''] = Inr faces_tree"
  "listdir faces_tree [''data'', ''caltech101'', ''101_ObjectCategories'']
     = Inr [''BACKGROUND_Google'', ''Faces'']"
  "py_remove ''BACKGROUND_Google'' (sort [''BACKGROUND_Google'', ''Faces'']) = Inr [''Faces'']"
  "extend_index (count101 faces_tree [''data'', ''caltech101'']) (enumerate 0 [''Faces'']) ([], [])
     = Inr ([1], [0])"
  "map annotation_category [''Faces''] = [''Faces_2'']"
  "check_integrity101 [''data'', ''caltech101''] faces_tree"
  by code_simp+

lemma faces_scan101:
  "scan101 [''data'', ''caltech101''] tts None None faces_tree = Inr (faces101 tts)"
  unfolding scan101_def faces101_def
  by (simp only: append.simps faces_parts err_bind_def sum.case prod.case)

lemma faces_init101:
  assumes "verify_target_types (case tt of Str s \<Rightarrow> [s] | StrList l \<Rightarrow> l) = Inr tts"
  shows "init101 E [''data''] tt None None False faces_world = (Inr (faces101 tts), faces_world)"
  using assms
  by (simp add: init101_def io_bind_def os_makedirs_def faces_world_def faces_parts
        io_lift_def io_return_def faces_scan101)

subsection \<open>Lookup: the folder of the annotation\<close>

text \<open>
  C7. In Caltech 101 the lookup opens the image of a sample in the folder of the
  category's own name and loads its annotation from the folder that the remap table gives
  the category: \<open>Faces_2\<close> for the category \<open>Faces\<close>, and the identical name for every
  category that is not a key of the table. For every in-range index of a constructed
  dataset whose target kinds include the annotation: whenever the lookup returns, the image
  file at the first path was opened, the annotation file at the second path was loaded,
  and its contour is among the collected target values; and when the image opens and the
  annotation file at the second path cannot be loaded, the lookup fails with the error of
  loading it.
\<close>

theorem annotation_folder_remap:
  "init101 E rt tt tr ttr dl w = (Inr ds, w') \<longrightarrow> 0 \<le> i \<longrightarrow> i < len101 ds \<longrightarrow>
     image_path101 ds i = Inr (root ds @ [''101_ObjectCategories'',
         categories101 ds ! nat (y101 ds ! nat i),
         ''image_'' @ format_0d 4 (index101 ds ! nat i) @ ''.jpg'']) \<and>
     annotation_path101 ds i = Inr (root ds @ [''Annotations'',
         annotation_category (categories101 ds ! nat (y101 ds ! nat i)),
         ''annotation_'' @ format_0d 4 (index101 ds ! nat i) @ ''.mat'']) \<and>
     (categories101 ds ! nat (y101 ds ! nat i) = ''Faces'' \<longrightarrow>
        annotation_category (categories101 ds ! nat (y101 ds ! nat i)) = ''Faces_2'') \<and>
     (categories101 ds ! nat (y101 ds ! nat i) \<notin> set (map fst name_map) \<longrightarrow>
        annotation_category (categories101 ds ! nat (y101 ds ! nat i))
          = categories101 ds ! nat (y101 ds ! nat i)) \<and>
     (''annotation'' \<in> set (target_type ds) \<longrightarrow>
        (\<forall>img tgt. get101 E t ds i = Inr (img, tgt) \<longrightarrow>
           (\<exists>img0 vals data a.
              Image_open E t (root ds @ [''101_ObjectCategories'',
                  categories101 ds ! nat (y101 ds ! nat i),
                  ''image_'' @ format_0d 4 (index101 ds ! nat i) @ ''.jpg'']) = Inr img0 \<and>
              loadmat E t (root ds @ [''Annotations'',
                  annotation_category (categories101 ds ! nat (y101 ds ! nat i)),
                  ''annotation_'' @ format_0d 4 (index101 ds ! nat i) @ ''.mat'']) = Inr data \<and>
              dict_getitem data ''obj_contour'' = Inr a \<and>
              collect_targets E t ds i (target_type ds) [] = Inr vals \<and>
              ObjContour a \<in> set vals)) \<and>
        (\<forall>img0 e. scipy_importable E \<longrightarrow>
           Image_open E t (root ds @ [''101_ObjectCategories'',
               categories101 ds ! nat (y101 ds ! nat i),
               ''image_'' @ format_0d 4 (index101 ds ! nat i) @ ''.jpg'']) = Inr img0 \<longrightarrow>
           loadmat E t (root ds @ [''Annotations'',
               annotation_category (categories101 ds ! nat (y101 ds ! nat i)),
               ''annotation_'' @ format_0d 4 (index101 ds ! nat i) @ ''.mat'']) = Inl e \<longrightarrow>
           get101 E t ds i = Inl e))"
proof (intro conjI impI allI)
  assume a: "init101 E rt tt tr ttr dl w = (Inr ds, w')" and i: "0 \<le> i" "i < len101 ds"
  note c = init101_consistent(1) [OF a]
  note ip = image_path101_in_range(1) [OF c i]
  note ap = annotation_path101_in_range [OF c init101_consistent(2) [OF a] i]
  from i have n: "nat i < length (index101 ds)" by (simp add: len101_def)
  with c have ny: "nat i < length (y101 ds)" by (simp add: consistent_index_def)
  have y: "py_getitem (y101 ds) i = Inr (y101 ds ! nat i)"
    using i ny by (intro py_getitem_in) simp_all
  show "image_path101 ds i = Inr (root ds @ [''101_ObjectCategories'',
         categories101 ds ! nat (y101 ds ! nat i),
         ''image_'' @ format_0d 4 (index101 ds ! nat i) @ ''.jpg''])"
    by (rule ip)
  show "annotation_path101 ds i = Inr (root ds @ [''Annotations'',
         annotation_category (categories101 ds ! nat (y101 ds ! nat i)),
         ''annotation_'' @ format_0d 4 (index101 ds ! nat i) @ ''.mat''])"
    by (rule ap)
  show "annotation_category (categories101 ds ! nat (y101 ds ! nat i)) = ''Faces_2''"
    if "categories101 ds ! nat (y101 ds ! nat i) = ''Faces''"
    using that by (simp add: annotation_category_cases)
  show "annotation_category (categories101 ds ! nat (y101 ds ! nat i))
          = categories101 ds ! nat (y101 ds ! nat i)"
    if "categories101 ds ! nat (y101 ds ! nat i) \<notin> set (map fst name_map)"
    using that by (rule annotation_category_cases(5))
  show "\<exists>img0 vals data a.
              Image_open E t (root ds @ [''101_ObjectCategories'',
                  categories101 ds ! nat (y101 ds ! nat i),
                  ''image_'' @ format_0d 4 (index101 ds ! nat i) @ ''.jpg'']) = Inr img0 \<and>
              loadmat E t (root ds @ [''Annotations'',
                  annotation_category (categories101 ds ! nat (y101 ds ! nat i)),
                  ''annotation_'' @ format_0d 4 (index101 ds ! nat i) @ ''.mat'']) = Inr data \<and>
              dict_getitem data ''obj_contour'' = Inr a \<and>
              collect_targets E t ds i (target_type ds) [] = Inr vals \<and>
              ObjContour a \<in> set vals"
    if an: "''annotation'' \<in> set (target_type ds)" and g: "get101 E t ds i = Inr (img, tgt)"
    for img tgt
  proof -
    from get101_Inr(2) [OF g] ip obtain img0 vals where
      io: "Image_open E t (root ds @ [''101_ObjectCategories'',
                  categories101 ds ! nat (y101 ds ! nat i),
                  ''image_'' @ format_0d 4 (index101 ds ! nat i) @ ''.jpg'']) = Inr img0"
      and ct: "collect_targets E t ds i (target_type ds) [] = Inr vals"
      by auto
    from collect_targets_values [OF y ap init101_consistent(3) [OF a] ct]
    have m: "map (requested_value E t ds i) (target_type ds) = map Inr vals" by simp
    from map_Inr_member [OF m an] obtain v where
      v: "v \<in> set vals" "requested_value E t ds i ''annotation'' = Inr v" by blast
    from requested_annotation_Inr [OF v(2)] v(1) io ct show ?thesis by blast
  qed
  show "get101 E t ds i = Inl e"
    if an: "''annotation'' \<in> set (target_type ds)" and sc: "scipy_importable E"
      and io: "Image_open E t (root ds @ [''101_ObjectCategories'',
               categories101 ds ! nat (y101 ds ! nat i),
               ''image_'' @ format_0d 4 (index101 ds ! nat i) @ ''.jpg'']) = Inr img0"
      and lm: "loadmat E t (root ds @ [''Annotations'',
               annotation_category (categories101 ds ! nat (y101 ds ! nat i)),
               ''annotation_'' @ format_0d 4 (index101 ds ! nat i) @ ''.mat'']) = Inl e"
    for img0 e
  proof -
    note f = collect_targets_annotation_fails [OF y ap lm an, of "[]"]
    show ?thesis
      unfolding get101_in_range [OF c i] using sc io f by (simp add: err_bind_def)
  qed
qed

lemma demo_annotation_lookups:
  "get101 demo_env demo_tree (demo101 [''annotation'']) 0 = Inr (''f1'', Single (ObjContour ''cf1''))"
  "loadmat demo_env demo_tree [''data'', ''caltech101'', ''Annotations'', ''Faces_2'', ''annotation_0001.mat'']
     = Inr [(''obj_contour'', ''cf1'')]"
  "loadmat demo_env demo_tree [''data'', ''caltech101'', ''Annotations'', ''Faces'', ''annotation_0001.mat'']
     = Inl FileNotFoundError"
  "get101 demo_env demo_tree (demo101 [''annotation'']) 4 = Inr (''b3'', Single (ObjContour ''cb3''))"
  "loadmat demo_env demo_tree [''data'', ''caltech101'', ''Annotations'', ''b'', ''annotation_0003.mat'']
     = Inr [(''obj_contour'', ''cb3'')]"
  "Image_open demo_env faces_tree
     [''data'', ''caltech101'', ''101_ObjectCategories'', ''Faces'', ''image_0001.jpg''] = Inr ''f1''"
  "loadmat demo_env faces_tree [''data'', ''caltech101'', ''Annotations'', ''Faces'', ''annotation_0001.mat'']
     = Inr [(''obj_contour'', ''cf1'')]"
  "loadmat demo_env faces_tree [''data'', ''caltech101'', ''Annotations'', ''Faces_2'', ''annotation_0001.mat'']
     = Inl FileNotFoundError"
  by code_simp+

theorem annotation_folder_remap_witness:
  "init101 demo_env [''data''] (Str ''annotation'') None None False demo_world
     = (Inr (demo101 [''annotation'']), demo_world) \<and>
   image_path101 (demo101 [''annotation'']) 0
     = Inr [''data'', ''caltech101'', ''101_ObjectCategories'', ''Faces'', ''image_0001.jpg''] \<and>
   annotation_path101 (demo101 [''annotation'']) 0
     = Inr [''data'', ''caltech101'', ''Annotations'', ''Faces_2'', ''annotation_0001.mat''] \<and>
   loadmat demo_env demo_tree [''data'', ''caltech101'', ''Annotations'', ''Faces_2'', ''annotation_0001.mat'']
     = Inr [(''obj_contour'', ''cf1'')] \<and>
   loadmat demo_env demo_tree [''data'', ''caltech101'', ''Annotations'', ''Faces'', ''annotation_0001.mat'']
     = Inl FileNotFoundError \<and>
   get101 demo_env demo_tree (demo101 [''annotation'']) 0 = Inr (''f1'', Single (ObjContour ''cf1'')) \<and>
   ''b'' \<notin> set (map fst name_map) \<and>
   image_path101 (demo101 [''annotation'']) 4
     = Inr [''data'', ''caltech101'', ''101_ObjectCategories'', ''b'', ''image_0003.jpg''] \<and>
   annotation_path101 (demo101 [''annotation'']) 4
     = Inr [''data'', ''caltech101'', ''Annotations'', ''b'', ''annotation_0003.mat''] \<and>
   get101 demo_env demo_tree (demo101 [''annotation'']) 4 = Inr (''b3'', Single (ObjContour ''cb3'')) \<and>
   init101 demo_env [''data''] (Str ''annotation'') None None False faces_world
     = (Inr (faces101 [''annotation'']), faces_world) \<and>
   Image_open demo_env faces_tree
     [''data'', ''caltech101'', ''101_ObjectCategories'', ''Faces'', ''image_0001.jpg''] = Inr ''f1'' \<and>
   loadmat demo_env faces_tree [''data'', ''caltech101'', ''Annotations'', ''Faces'', ''annotation_0001.mat'']
     = Inr [(''obj_contour'', ''cf1'')] \<and>
   loadmat demo_env faces_tree [''data'', ''caltech101'', ''Annotations'', ''Faces_2'', ''annotation_0001.mat'']
     = Inl FileNotFoundError \<and>
   get101 demo_env faces_tree (faces101 [''annotation'']) 0 = Inl FileNotFoundError"
proof -
  have v: "verify_target_types (case Str ''annotation'' of Str s \<Rightarrow> [s] | StrList l \<Rightarrow> l)
      = Inr [''annotation'']"
    by (simp add: verify_str_arg_def err_bind_def)
  note da = demo_init101_any [OF v]
  note fa = faces_init101 [OF v, of demo_env]
  have l: "len101 (demo101 [''annotation'']) = 5" "len101 (faces101 [''annotation'']) = 1"
    by (simp_all add: len101_def demo101_def faces101_def)
  have r: "(0::int) \<le> 0" "(0::int) \<le> 4" "0 < len101 (demo101 [''annotation''])"
    "4 < len101 (demo101 [''annotation''])" "0 < len101 (faces101 [''annotation''])"
    by (simp_all add: l)
  have nb: "''b'' \<notin> set (map fst name_map)" by (simp add: name_map_def)
  have sc: "scipy_importable demo_env" by (simp add: demo_env_def)
  have an: "''annotation'' \<in> set (target_type (faces101 [''annotation'']))"
    by (simp add: faces101_def)
  note t0 = annotation_folder_remap [of demo_env "[''data'']" "Str ''annotation''"
      None None False demo_world "demo101 [''annotation'']" demo_world 0 demo_tree]
  note t4 = annotation_folder_remap [of demo_env "[''data'']" "Str ''annotation''"
      None None False demo_world "demo101 [''annotation'']" demo_world 4 demo_tree]
  note tf = annotation_folder_remap [of demo_env "[''data'']" "Str ''annotation''"
      None None False faces_world "faces101 [''annotation'']" faces_world 0 faces_tree]
  from t0 da l have p0:
    "image_path101 (demo101 [''annotation'']) 0
       = Inr [''data'', ''caltech101'', ''101_ObjectCategories'', ''Faces'', ''image_0001.jpg'']"
    "annotation_path101 (demo101 [''annotation'']) 0
       = Inr [''data'', ''caltech101'', ''Annotations'', ''Faces_2'', ''annotation_0001.mat'']"
    by (simp_all add: demo101_def demo_formats annotation_category_cases)
  from t4 da l nb have p4:
    "image_path101 (demo101 [''annotation'']) 4
       = Inr [''data'', ''caltech101'', ''101_ObjectCategories'', ''b'', ''image_0003.jpg'']"
    "annotation_path101 (demo101 [''annotation'']) 4
       = Inr [''data'', ''caltech101'', ''Annotations'', ''b'', ''annotation_0003.mat'']"
    by (simp_all add: demo101_def demo_formats annotation_category_cases)
  from tf fa r an have f: "\<forall>img0 e. scipy_importable demo_env \<longrightarrow>
       Image_open demo_env faces_tree (root (faces101 [''annotation'']) @ [''101_ObjectCategories'',
           categories101 (faces101 [''annotation'']) ! nat (y101 (faces101 [''annotation'']) ! nat 0),
           ''image_'' @ format_0d 4 (index101 (faces101 [''annotation'']) ! nat 0) @ ''.jpg'']) = Inr img0 \<longrightarrow>
       loadmat demo_env faces_tree (root (faces101 [''annotation'']) @ [''Annotations'',
           annotation_category (categories101 (faces101 [''annotation''])
             ! nat (y101 (faces101 [''annotation'']) ! nat 0)),
           ''annotation_'' @ format_0d 4 (index101 (faces101 [''annotation'']) ! nat 0) @ ''.mat'']) = Inl e \<longrightarrow>
       get101 demo_env faces_tree (faces101 [''annotation'']) 0 = Inl e"
    by blast
  have g: "get101 demo_env faces_tree (faces101 [''annotation'']) 0 = Inl FileNotFoundError"
    using f [rule_format, OF sc, of "''f1''" FileNotFoundError]
      demo_annotation_lookups(6) demo_annotation_lookups(8)
    by (simp add: faces101_def demo_formats annotation_category_cases)
  from da fa p0 p4 nb g demo_annotation_lookups show ?thesis by simp
qed

lemma demo_init101_env:
  assumes "verify_target_types (case tt of Str s \<Rightarrow> [s] | StrList l \<Rightarrow> l) = Inr tts"
  shows "init101 E [''data''] tt None None False demo_world = (Inr (demo101 tts), demo_world)"
  using assms
  by (simp add: init101_def io_bind_def os_makedirs_def demo_world_def demo_makedirs101
        io_lift_def io_return_def demo_scan101_parts demo_scan101)

subsection \<open>Construction with no target kind\<close>

text \<open>
  C10, as the specification states it, fails: on a dataset constructed with an empty list
  of target kinds, a lookup at an in-range index does not always fail with an index error.
  The import of the annotation reader and the opening of the image come before the
  selection of the target: where the reader cannot be imported the lookup fails with the
  import error, and where the image file does not exist (here the second entry of a
  category that holds one image beside two other entries) it fails with the error of
  opening it.
\<close>

theorem empty_target_type_other_errors_counterexample:
  "init101 (demo_env\<lparr>scipy_importable := False\<rparr>) [''data''] (StrList []) None None False demo_world
     = (Inr (demo101 []), demo_world) \<and>
   (0::int) \<le> 2 \<and> 2 < len101 (demo101 []) \<and>
   get101 (demo_env\<lparr>scipy_importable := False\<rparr>) demo_tree (demo101 []) 2 = Inl ImportError \<and>
   get101 (demo_env\<lparr>scipy_importable := False\<rparr>) demo_tree (demo101 []) 2 \<noteq> Inl IndexError \<and>
   init101 demo_env [''data''] (StrList []) None None False stray_world
     = (Inr (stray101 []), stray_world) \<and>
   (0::int) \<le> 1 \<and> 1 < len101 (stray101 []) \<and>
   get101 demo_env stray_tree (stray101 []) 1 = Inl FileNotFoundError \<and>
   get101 demo_env stray_tree (stray101 []) 1 \<noteq> Inl IndexError"
proof -
  have v: "verify_target_types (case StrList [] of Str s \<Rightarrow> [s] | StrList l \<Rightarrow> l) = Inr []"
    by simp
  have l: "2 < len101 (demo101 [])" "1 < len101 (stray101 [])"
    by (simp_all add: len101_def demo101_def stray101_def)
  have a: "get101 (demo_env\<lparr>scipy_importable := False\<rparr>) demo_tree (demo101 []) 2 = Inl ImportError"
    by (simp add: get101_def)
  have b: "get101 demo_env stray_tree (stray101 []) 1 = Inl FileNotFoundError"
    by code_simp
  from demo_init101_env [OF v, of "demo_env\<lparr>scipy_importable := False\<rparr>"]
    stray_init101 [OF v, of demo_env] l a b
  show ?thesis by simp
qed

text \<open>
  C10, amended. An empty list of target kinds passes the validation: constructing
  Caltech 101 with it succeeds exactly when constructing with \<open>category\<close> does, and gives
  the same dataset with an empty target list. On such a dataset no lookup returns. For
  every in-range index the lookup fails with the import error when the annotation reader
  cannot be imported, else with the error of opening the image file when the file at the
  image path cannot be opened, and else, the image being opened, with the index error of
  selecting \<^verbatim>\<open>target[0]\<close> from the empty list.
\<close>

theorem empty_target_type_fails_at_lookup:
  "verify_target_types [] = Inr [] \<and>
   init101 E rt (StrList []) tr ttr dl w =
     (case init101 E rt (Str ''category'') tr ttr dl w of
        (Inl e, w1) \<Rightarrow> (Inl e, w1)
      | (Inr ds0, w1) \<Rightarrow> (Inr (ds0\<lparr>target_type := []\<rparr>), w1)) \<and>
   (init101 E rt (StrList []) tr ttr dl w = (Inr ds, w') \<longrightarrow>
      target_type ds = [] \<and>
      (\<forall>r. get101 E t ds i \<noteq> Inr r) \<and>
      (0 \<le> i \<and> i < len101 ds \<longrightarrow>
         image_path101 ds i = Inr (root ds @ [''101_ObjectCategories'',
             categories101 ds ! nat (y101 ds ! nat i),
             ''image_'' @ format_0d 4 (index101 ds ! nat i) @ ''.jpg'']) \<and>
         get101 E t ds i =
           (if \<not> scipy_importable E then Inl ImportError
            else case Image_open E t (root ds @ [''101_ObjectCategories'',
                        categories101 ds ! nat (y101 ds ! nat i),
                        ''image_'' @ format_0d 4 (index101 ds ! nat i) @ ''.jpg'']) of
                   Inl e \<Rightarrow> Inl e
                 | Inr img \<Rightarrow> Inl IndexError)) \<and>
      (scipy_importable E \<and> image_path101 ds i = Inr p \<and> Image_open E t p = Inr img \<longrightarrow>
         get101 E t ds i = Inl IndexError))"
proof (intro conjI impI)
  show "verify_target_types [] = Inr []" by simp
  show "init101 E rt (StrList []) tr ttr dl w =
     (case init101 E rt (Str ''category'') tr ttr dl w of
        (Inl e, w1) \<Rightarrow> (Inl e, w1)
      | (Inr ds0, w1) \<Rightarrow> (Inr (ds0\<lparr>target_type := []\<rparr>), w1))"
    by (rule init101_empty_list)
next
  assume a: "init101 E rt (StrList []) tr ttr dl w = (Inr ds, w')"
  from init101_Inr(1) [OF a] show e: "target_type ds = []" by simp
  note g = get101_empty_target_type [OF e, of E t i]
  show "\<forall>r. get101 E t ds i \<noteq> Inr r"
    unfolding g by (simp add: err_bind_def split: sum.splits)
  show "get101 E t ds i = Inl IndexError"
    if "scipy_importable E \<and> image_path101 ds i = Inr p \<and> Image_open E t p = Inr img"
    unfolding g using that by (simp add: err_bind_def)
  assume i: "0 \<le> i \<and> i < len101 ds"
  then have i': "0 \<le> i" "i < len101 ds" by simp_all
  note ip = image_path101_in_range(1) [OF init101_consistent(1) [OF a] i']
  show "image_path101 ds i = Inr (root ds @ [''101_ObjectCategories'',
             categories101 ds ! nat (y101 ds ! nat i),
             ''image_'' @ format_0d 4 (index101 ds ! nat i) @ ''.jpg''])"
    by (rule ip)
  show "get101 E t ds i =
           (if \<not> scipy_importable E then Inl ImportError
            else case Image_open E t (root ds @ [''101_ObjectCategories'',
                        categories101 ds ! nat (y101 ds ! nat i),
                        ''image_'' @ format_0d 4 (index101 ds ! nat i) @ ''.jpg'']) of
                   Inl e \<Rightarrow> Inl e
                 | Inr img \<Rightarrow> Inl IndexError)"
    unfolding g ip by (simp add: err_bind_def split: sum.splits)
qed

theorem empty_target_type_fails_at_lookup_witness:
  "init101 demo_env [''data''] (StrList []) None None False demo_world
     = (Inr (demo101 []), demo_world) \<and>
   len101 (demo101 []) = 5 \<and> scipy_importable demo_env \<and>
   image_path101 (demo101 []) 2
     = Inr [''data'', ''caltech101'', ''101_ObjectCategories'', ''b'', ''image_0001.jpg''] \<and>
   Image_open demo_env demo_tree
     [''data'', ''caltech101'', ''101_ObjectCategories'', ''b'', ''image_0001.jpg''] = Inr ''b1'' \<and>
   get101 demo_env demo_tree (demo101 []) 2 = Inl IndexError"
proof -
  have a: "init101 demo_env [''data''] (StrList []) None None False demo_world
     = (Inr (demo101 []), demo_world)"
    by (rule demo_init101_any) simp
  have l: "len101 (demo101 []) = 5" by (simp add: len101_def demo101_def)
  have s: "scipy_importable demo_env" by (simp add: demo_env_def)
  have p: "image_path101 (demo101 []) 2
     = Inr [''data'', ''caltech101'', ''101_ObjectCategories'', ''b'', ''image_0001.jpg'']"
    by code_simp
  have o: "Image_open demo_env demo_tree
     [''data'', ''caltech101'', ''101_ObjectCategories'', ''b'', ''image_0001.jpg''] = Inr ''b1''"
    by code_simp
  note t = empty_target_type_fails_at_lookup [where E = demo_env and rt = "[''data'']"
      and tr = None and ttr = None and dl = False and w = demo_world and ds = "demo101 []"
      and w' = demo_world and t = demo_tree and i = 2
      and p = "[''data'', ''caltech101'', ''101_ObjectCategories'', ''b'', ''image_0001.jpg'']"
      and img = "''b1''"]
  from t [THEN conjunct2, THEN conjunct2, THEN mp, OF a] s p o
  have "get101 demo_env demo_tree (demo101 []) 2 = Inl IndexError" by blast
  with a l s p o show ?thesis by simp
qed

end
